theory Spec2Isabelle
  imports Complex_Main "HOL-Library.Word"
begin

unbundle bit_operations_syntax

section \<open>JavaScript values\<close>

text \<open>
  Both programs are dynamically typed and read their data from parsed JSON documents and from
  environment variables. A value is \<open>undefined\<close> or a JSON value. Numbers carry the value
  of the parsed double (every double is a rational, and JSON has no NaN); objects are
  association lists of their own properties as \<open>JSON.parse\<close> leaves them.
\<close>

datatype jsval =
    Undefined
  | JNull
  | JBool bool
  | JNum rat
  | JStr string
  | JArr "jsval list"
  | JObj "(string \<times> jsval) list"

text \<open>The conversion to a boolean that \<open>if (v)\<close>, \<open>!v\<close>, \<open>a && b\<close> and \<open>a || b\<close> apply.\<close>

fun truthy :: "jsval \<Rightarrow> bool" where
  "truthy Undefined = False"
| "truthy JNull = False"
| "truthy (JBool b) = b"
| "truthy (JNum n) = (n \<noteq> 0)"
| "truthy (JStr s) = (s \<noteq> [])"
| "truthy (JArr xs) = True"
| "truthy (JObj kvs) = True"

text \<open>\<open>a || b\<close>\<close>

definition js_or :: "jsval \<Rightarrow> jsval \<Rightarrow> jsval" where
  "js_or a b = (if truthy a then a else b)"

text \<open>
  \<open>a === b\<close>. The two operands of every comparison in the programs come from different
  sources (two parsed documents, or a parsed document and a configuration string), so an
  array or an object on the left is a different reference from whatever is on the right.
\<close>

fun strict_eq :: "jsval \<Rightarrow> jsval \<Rightarrow> bool" where
  "strict_eq Undefined b = (b = Undefined)"
| "strict_eq JNull b = (b = JNull)"
| "strict_eq (JBool x) b = (b = JBool x)"
| "strict_eq (JNum x) b = (b = JNum x)"
| "strict_eq (JStr x) b = (b = JStr x)"
| "strict_eq (JArr xs) b = False"
| "strict_eq (JObj kvs) b = False"

text \<open>
  \<open>v.k\<close> for the property names the programs read (none of them is defined on a prototype).
  Reading a property of \<open>undefined\<close> or \<open>null\<close> throws a TypeError: \<open>None\<close>.
\<close>

fun get_prop :: "jsval \<Rightarrow> string \<Rightarrow> jsval option" where
  "get_prop Undefined k = None"
| "get_prop JNull k = None"
| "get_prop (JObj kvs) k = Some (case map_of kvs k of None \<Rightarrow> Undefined | Some v \<Rightarrow> v)"
| "get_prop v k = Some Undefined"

text \<open>
  \<open>v.k\<close> at the places where the source has already tested \<open>v\<close> for truthiness, so that
  the TypeError cannot arise (lemma \<open>truthy_get_prop\<close> below).
\<close>

definition js_get :: "jsval \<Rightarrow> string \<Rightarrow> jsval" where
  "js_get v k = (case get_prop v k of None \<Rightarrow> Undefined | Some x \<Rightarrow> x)"

text \<open>\<open>v?.k\<close>\<close>

definition opt_prop :: "jsval \<Rightarrow> string \<Rightarrow> jsval" where
  "opt_prop v k = (if v = Undefined \<or> v = JNull then Undefined else js_get v k)"

text \<open>
  The conversion of a value to a string, in a template literal or under \<open>+\<close>, throws a
  TypeError for an object with a property \<open>toString\<close> of its own (read from JSON it is no
  function, and \<open>valueOf\<close> gives the object back), and for an array one of whose elements
  throws, since \<open>join\<close> converts the elements. Every other value has a string.
\<close>

fun stringifiable :: "jsval \<Rightarrow> bool" where
  "stringifiable (JObj kvs) = (map_of kvs ''toString'' = None)"
| "stringifiable (JArr xs) = list_all stringifiable xs"
| "stringifiable v = True"

text \<open>A configuration value read from \<open>process.env\<close>: a string, or \<open>undefined\<close> when unset.\<close>

fun env_val :: "string option \<Rightarrow> jsval" where
  "env_val None = Undefined"
| "env_val (Some s) = JStr s"

text \<open>
  What \<open>JSON.stringify\<close> writes for an object literal: a property whose value is
  \<open>undefined\<close> is left out.
\<close>

definition json_object :: "(string \<times> jsval) list \<Rightarrow> jsval" where
  "json_object kvs = JObj (filter (\<lambda>kv. snd kv \<noteq> Undefined) kvs)"

text \<open>
  The outcome of a call into the SDK or the runtime: it throws an error (with its
  \<open>message\<close>, if it has one) or returns.
\<close>

datatype 'a attempt = Throws "string option" | Returns 'a

section \<open>The flow script: waiting for a task\<close>

text \<open>
  The deliveries of the task observable to the subscriber of \<open>waitForTask\<close>, in order:
  \<open>next({message, task})\<close>, \<open>error(e)\<close> with the error's message, \<open>complete()\<close>.
  The list is everything the feed ever delivers; after its end the feed stays silent.
\<close>

datatype feed_event = Next string jsval | Error "string option" | Complete

text \<open>
  The promise \<open>waitForTask\<close> returns: resolved with a value, rejected with an error, or
  never settled (\<open>None\<close>). The first \<open>resolve\<close> or \<open>reject\<close> settles it.
\<close>

fun settle :: "feed_event list \<Rightarrow> jsval attempt option" where
  "settle [] = None"
| "settle (Next message task # es) =
     (if truthy task \<and> strict_eq (js_get task ''statusName'') (JStr ''COMPLETED'')
      then Some (Returns task)
      else if truthy task \<and> (strict_eq (js_get task ''statusName'') (JStr ''FAILED'')
                             \<or> strict_eq (js_get task ''statusName'') (JStr ''TIMEDOUT''))
      then (case js_get task ''statusName'' of
              JStr s \<Rightarrow> Some (Throws (Some (''Task ended with status '' @ s)))
            | _ \<Rightarrow> Some (Throws None))
      else settle es)"
| "settle (Error e # es) = settle es"
| "settle (Complete # es) = Some (Returns Undefined)"

text \<open>
  \<open>waitForTask(iexec, taskId)\<close>: \<open>obsTask\<close> throws or hands out the observable.
\<close>

definition waitForTask :: "feed_event list attempt \<Rightarrow> jsval attempt option" where
  "waitForTask obs = (case obs of Throws e \<Rightarrow> Some (Throws e) | Returns es \<Rightarrow> settle es)"

section \<open>The flow script: running an application\<close>

text \<open>
  What the SDK answers during one \<open>executeTargetApp\<close> or \<open>executeConsumeApp\<close>, call by call.
\<close>

record exec_env =
  app_order :: "unit attempt"              \<comment> \<open>\<open>createAppOrder\<close>: create and sign the app order\<close>
  orders :: "jsval list option attempt"    \<comment> \<open>\<open>fetchWorkerpoolOrderbook\<close>: its \<open>orders\<close>, if any\<close>
  request_order :: "unit attempt"          \<comment> \<open>create and sign the request order\<close>
  deal_task :: "string attempt"            \<comment> \<open>\<open>matchOrders\<close>, \<open>deal.show\<close>, the id of task 0\<close>
  task_feed :: "feed_event list attempt"   \<comment> \<open>\<open>obsTask\<close>\<close>
  task_show :: "jsval attempt"             \<comment> \<open>\<open>task.show\<close>\<close>
  type_error :: "string \<Rightarrow> string"         \<comment> \<open>the engine's message for reading a property of
                                               \<open>undefined\<close> or \<open>null\<close>, by property\<close>

definition fetchWorkerpoolOrder ::
  "(string \<Rightarrow> string) \<Rightarrow> jsval list option attempt \<Rightarrow> jsval attempt" where
  "fetchWorkerpoolOrder message book =
     (case book of
        Throws e \<Rightarrow> Throws e
      | Returns None \<Rightarrow> Throws (Some ''No TEE workerpool order available'')
      | Returns (Some []) \<Rightarrow> Throws (Some ''No TEE workerpool order available'')
      | Returns (Some (first # rest)) \<Rightarrow>
          (case get_prop first ''order'' of
             None \<Rightarrow> Throws (Some (message ''order''))
           | Some order \<Rightarrow> Returns order))"

text \<open>
  The body shared by \<open>executeTargetApp\<close> and \<open>executeConsumeApp\<close>, which differ in the
  application and the arguments of the request only. The result is the \<open>resultLocation\<close>
  of the returned object; \<open>None\<close> when the wait for the task never ends.
\<close>

definition executeApp :: "exec_env \<Rightarrow> jsval attempt option" where
  "executeApp x =
     (case app_order x of
        Throws e \<Rightarrow> Some (Throws e)
      | Returns u \<Rightarrow>
     (case fetchWorkerpoolOrder (type_error x) (orders x) of
        Throws e \<Rightarrow> Some (Throws e)
      | Returns workerpoolOrder \<Rightarrow>
     (case request_order x of
        Throws e \<Rightarrow> Some (Throws e)
      | Returns u' \<Rightarrow>
     (case deal_task x of
        Throws e \<Rightarrow> Some (Throws e)
      | Returns taskId \<Rightarrow>
     (case waitForTask (task_feed x) of
        None \<Rightarrow> None
      | Some (Throws e) \<Rightarrow> Some (Throws e)
      | Some (Returns task) \<Rightarrow>
     (case task_show x of
        Throws e \<Rightarrow> Some (Throws e)
      | Returns taskResult \<Rightarrow>
     (case get_prop taskResult ''results'' of
        None \<Rightarrow> Some (Throws (Some (type_error x ''results'')))
      | Some results \<Rightarrow> Some (Returns (opt_prop results ''location'')))))))))"

definition executeTargetApp :: "exec_env \<Rightarrow> jsval attempt option" where
  "executeTargetApp x = executeApp x"

definition executeConsumeApp :: "exec_env \<Rightarrow> jsval attempt option" where
  "executeConsumeApp x = executeApp x"

text \<open>
  \<open>fetchResult(location)\<close>: download, unzip, read and parse \<open>result.json\<close>. Every failure on
  the way is caught and turned into \<open>null\<close>.
\<close>

datatype fetched = FetchFailed "string option" | Document jsval

definition fetchResult :: "fetched \<Rightarrow> jsval" where
  "fetchResult f = (case f of FetchFailed e \<Rightarrow> JNull | Document v \<Rightarrow> v)"

section \<open>The flow script: the lock file\<close>

text \<open>
  \<open>.secret-lock.json\<close>: missing, unreadable or not JSON, or holding a document.
\<close>

datatype lockfile = NoFile | Corrupt | Content jsval

definition getLockState :: "string option \<Rightarrow> lockfile \<Rightarrow> jsval" where
  "getLockState consumeApp f =
     (case f of
        NoFile \<Rightarrow> JNull
      | Corrupt \<Rightarrow> JNull
      | Content data \<Rightarrow>
          (case get_prop data ''appAddress'' of
             None \<Rightarrow> JNull
           | Some a \<Rightarrow> if strict_eq a (env_val consumeApp) then data else JNull))"

text \<open>\<open>saveLockState(hash)\<close>, with the time of the write.\<close>

definition saveLockState :: "string option \<Rightarrow> jsval \<Rightarrow> string \<Rightarrow> lockfile" where
  "saveLockState consumeApp hash now =
     Content (json_object
       [(''appAddress'', env_val consumeApp),
        (''secretHash'', hash),
        (''timestamp'', JStr now)])"

section \<open>The flow script: verification\<close>

text \<open>The messages of step 3, one constructor for each \<open>log\<close> call, with the value it prints.\<close>

datatype report_line =
    ExpectedHash jsval
  | ActualHash jsval
  | HashesMatch
  | StillOriginalSecret
  | PersistentVerificationOk
  | InitialProvisioningOk
  | HashMismatch
  | MissingTargetHash

definition verification :: "jsval \<Rightarrow> jsval \<Rightarrow> jsval \<Rightarrow> report_line list" where
  "verification targetAppHash consumeAppHash existingState =
     [ExpectedHash (js_or targetAppHash (JStr ''Unknown'')),
      ActualHash (js_or consumeAppHash (JStr ''N/A''))] @
     (if truthy targetAppHash \<and> truthy consumeAppHash \<and> strict_eq targetAppHash consumeAppHash
      then [HashesMatch] @
           (if truthy existingState
            then [StillOriginalSecret, PersistentVerificationOk]
            else [InitialProvisioningOk])
      else [HashMismatch] @
           (if \<not> truthy targetAppHash then [MissingTargetHash] else []))"

section \<open>The flow script: main\<close>

text \<open>
  \<open>includes\<close> of a string.
\<close>

fun str_includes :: "string \<Rightarrow> string \<Rightarrow> bool" where
  "str_includes [] p = (p = [])"
| "str_includes (c # cs) p = (take (length p) (c # cs) = p \<or> str_includes cs p)"

text \<open>
  \<open>setupTargetAppPermissions\<close>, given what \<open>pushAppSecret\<close> does. The \<open>catch\<close> lets only the
  error whose message mentions \<open>already exists\<close> pass.
\<close>

definition setup_catch :: "string option \<Rightarrow> unit attempt" where
  "setup_catch e =
     (case e of
        None \<Rightarrow> Throws None
      | Some m \<Rightarrow> if m \<noteq> [] \<and> str_includes m ''already exists'' then Returns () else Throws (Some m))"

definition setupTargetAppPermissions :: "bool attempt \<Rightarrow> unit attempt" where
  "setupTargetAppPermissions push =
     (case push of
        Returns isPushed \<Rightarrow> if isPushed then Returns () else setup_catch (Some ''Push returned false'')
      | Throws e \<Rightarrow> setup_catch e)"

text \<open>The environment of one run of the script.\<close>

record flow_env =
  consumeApp :: "string option"      \<comment> \<open>\<open>CONFIG.consumeApp\<close>\<close>
  lock0 :: lockfile                  \<comment> \<open>the lock file when the run starts\<close>
  wallet :: "string attempt"         \<comment> \<open>the signer and \<open>wallet.getAddress\<close>\<close>
  setup_push :: "bool attempt"       \<comment> \<open>\<open>pushAppSecret\<close> of step 0\<close>
  target_exec :: exec_env
  consume_exec :: exec_env
  fetch :: "jsval \<Rightarrow> fetched"       \<comment> \<open>what is found at a result location\<close>
  save_time :: string                \<comment> \<open>the clock when the lock file is written\<close>

datatype stage = Setup | Producer | ProducerFetch | SaveLock jsval | Consumer | ConsumerFetch | Verify

text \<open>
  How a run ends: \<open>main\<close> returns; \<open>process.exit\<close> is called with a code; or \<open>main\<close> is
  left waiting for a promise that never settles, so that it runs none of its later steps.
\<close>

datatype ending = Done | Exit nat | Unfinished

record run_result =
  ending :: ending
  lock :: lockfile             \<comment> \<open>the lock file afterwards\<close>
  stages :: "stage list"       \<comment> \<open>the steps begun, in order\<close>
  report :: "report_line list" \<comment> \<open>the messages of step 3\<close>

text \<open>The digest read from the producer's result (the body of \<open>if (targetData)\<close>).\<close>

definition target_hash :: "jsval \<Rightarrow> jsval" where
  "target_hash targetData =
     (let targetAppHash = opt_prop (js_get targetData ''secretInfo'') ''hash''
      in if \<not> truthy targetAppHash \<and> truthy (js_get targetData ''generatedSecret'')
            \<and> truthy (js_get (js_get targetData ''generatedSecret'') ''sha256'')
         then js_get (js_get targetData ''generatedSecret'') ''sha256''
         else targetAppHash)"

text \<open>
  Steps 2 and 3. The messages of step 2 convert the result location, a truthy \<open>preview\<close> and
  the observed digest to strings inside the \<open>try\<close>; the first two messages of step 3
  convert the two digests or their placeholders outside of any \<open>try\<close>. A conversion that
  throws ends the run with exit code 1, either way.
\<close>

definition consume_and_verify ::
  "flow_env \<Rightarrow> jsval \<Rightarrow> jsval \<Rightarrow> lockfile \<Rightarrow> stage list \<Rightarrow> run_result" where
  "consume_and_verify env existingState targetAppHash lk done =
     (case executeConsumeApp (consume_exec env) of
        None \<Rightarrow> \<lparr>ending = Unfinished, lock = lk, stages = done @ [Consumer], report = []\<rparr>
      | Some (Throws e) \<Rightarrow> \<lparr>ending = Exit 1, lock = lk, stages = done @ [Consumer], report = []\<rparr>
      | Some (Returns location) \<Rightarrow>
          if \<not> stringifiable location
          then \<lparr>ending = Exit 1, lock = lk, stages = done @ [Consumer], report = []\<rparr>
          else
          (let consumeData = fetchResult (fetch env location);
               consumeAppHash = (if truthy consumeData
                                 then opt_prop (js_get consumeData ''hashes'') ''sha256''
                                 else Undefined)
           in if truthy consumeData
                 \<and> ((truthy (js_get consumeData ''preview'')
                        \<and> \<not> stringifiable (js_get consumeData ''preview''))
                      \<or> \<not> stringifiable consumeAppHash)
              then \<lparr>ending = Exit 1, lock = lk,
                    stages = done @ [Consumer, ConsumerFetch], report = []\<rparr>
              else if \<not> stringifiable (js_or targetAppHash (JStr ''Unknown''))
              then \<lparr>ending = Exit 1, lock = lk,
                    stages = done @ [Consumer, ConsumerFetch, Verify], report = []\<rparr>
              else if \<not> stringifiable (js_or consumeAppHash (JStr ''N/A''))
              then \<lparr>ending = Exit 1, lock = lk,
                    stages = done @ [Consumer, ConsumerFetch, Verify],
                    report = [ExpectedHash (js_or targetAppHash (JStr ''Unknown''))]\<rparr>
              else \<lparr>ending = Done, lock = lk,
                    stages = done @ [Consumer, ConsumerFetch, Verify],
                    report = verification targetAppHash consumeAppHash existingState\<rparr>))"

text \<open>
  Step 1, the \<open>else\<close> branch of \<open>main\<close>. Its messages convert the result location and,
  when a result was fetched, the digest to strings before the lock file is written; all of
  it is inside the \<open>try\<close>.
\<close>

definition provision :: "flow_env \<Rightarrow> jsval \<Rightarrow> run_result" where
  "provision env existingState =
     (case executeTargetApp (target_exec env) of
        None \<Rightarrow> \<lparr>ending = Unfinished, lock = lock0 env, stages = [Setup, Producer], report = []\<rparr>
      | Some (Throws e) \<Rightarrow>
          \<lparr>ending = Exit 1, lock = lock0 env, stages = [Setup, Producer], report = []\<rparr>
      | Some (Returns location) \<Rightarrow>
          if \<not> stringifiable location
          then \<lparr>ending = Exit 1, lock = lock0 env, stages = [Setup, Producer], report = []\<rparr>
          else
          (let targetData = fetchResult (fetch env location);
               targetAppHash = (if truthy targetData then target_hash targetData else Undefined)
           in if truthy targetData \<and> \<not> stringifiable targetAppHash
              then \<lparr>ending = Exit 1, lock = lock0 env,
                    stages = [Setup, Producer, ProducerFetch], report = []\<rparr>
              else if truthy targetData \<and> truthy targetAppHash
              then consume_and_verify env existingState targetAppHash
                     (saveLockState (consumeApp env) targetAppHash (save_time env))
                     [Setup, Producer, ProducerFetch, SaveLock targetAppHash]
              else consume_and_verify env existingState targetAppHash (lock0 env)
                     [Setup, Producer, ProducerFetch]))"

text \<open>
  The two messages of the reuse branch convert the stored \<open>secretHash\<close> and, when
  \<open>runCount\<close> is truthy, \<open>runCount + 1\<close> to strings, outside of any \<open>try\<close>.
\<close>

definition reuse_banner :: "jsval \<Rightarrow> bool" where
  "reuse_banner existingState =
     (stringifiable (js_get existingState ''secretHash'')
      \<and> (if truthy (js_get existingState ''runCount'')
         then stringifiable (js_get existingState ''runCount'')
         else True))"

definition main :: "flow_env \<Rightarrow> run_result" where
  "main env =
     (case wallet env of
        Throws e \<Rightarrow> \<lparr>ending = Exit 1, lock = lock0 env, stages = [], report = []\<rparr>
      | Returns walletAddress \<Rightarrow>
          (let existingState = getLockState (consumeApp env) (lock0 env)
           in case setupTargetAppPermissions (setup_push env) of
                Throws e \<Rightarrow> \<lparr>ending = Exit 1, lock = lock0 env, stages = [Setup], report = []\<rparr>
              | Returns u \<Rightarrow>
                  if truthy existingState \<and> truthy (js_get existingState ''secretHash'')
                  then (if reuse_banner existingState
                        then consume_and_verify env existingState
                               (js_get existingState ''secretHash'') (lock0 env) [Setup]
                        else \<lparr>ending = Exit 1, lock = lock0 env, stages = [Setup], report = []\<rparr>)
                  else provision env existingState))"

section \<open>The secret generator: random strings and encodings\<close>

type_synonym byte = "8 word"

text \<open>
  The secure random source is an unbounded supply of bytes. \<open>randomBytes(n)\<close> takes the
  next \<open>n\<close> of them.
\<close>

type_synonym rng = "nat \<Rightarrow> byte"

definition randomBytes :: "nat \<Rightarrow> rng \<Rightarrow> byte list \<times> rng" where
  "randomBytes n r = (map r [0..<n], \<lambda>i. r (i + n))"

definition charsets :: "string \<Rightarrow> string option" where
  "charsets = map_of
     [(''alphanumeric'', ''ABCDEFGHIJKLMNOPQRSTUVWXYZabcdefghijklmnopqrstuvwxyz0123456789''),
      (''alphanumericSpecial'',
         ''ABCDEFGHIJKLMNOPQRSTUVWXYZabcdefghijklmnopqrstuvwxyz0123456789!@#$%^&*()_+-=[]{}|;:,.<>?''),
      (''hex'', ''0123456789abcdef''),
      (''numeric'', ''0123456789''),
      (''alpha'', ''ABCDEFGHIJKLMNOPQRSTUVWXYZabcdefghijklmnopqrstuvwxyz'')]"

text \<open>
  \<open>generateRandomString(length, charset)\<close>: the loop appends one character for each of the
  \<open>length\<close> random bytes, \<open>chars[bytes[i] % chars.length]\<close>.
\<close>

definition generateRandomString :: "nat \<Rightarrow> string \<Rightarrow> rng \<Rightarrow> string \<times> rng" where
  "generateRandomString len charset r =
     (let chars = (case charsets charset of
                     Some cs \<Rightarrow> cs
                   | None \<Rightarrow> ''ABCDEFGHIJKLMNOPQRSTUVWXYZabcdefghijklmnopqrstuvwxyz0123456789'');
          (bytes, r') = randomBytes len r
      in (map (\<lambda>b. chars ! (unat b mod length chars)) bytes, r'))"

text \<open>\<open>buffer.toString('hex')\<close>\<close>

definition hex_digit :: "nat \<Rightarrow> char" where
  "hex_digit n = ''0123456789abcdef'' ! n"

definition to_hex :: "byte list \<Rightarrow> string" where
  "to_hex bs = concat (map (\<lambda>b. [hex_digit (unat b div 16), hex_digit (unat b mod 16)]) bs)"

text \<open>\<open>buffer.toString('base64')\<close> and \<open>buffer.toString('base64url')\<close> (no padding).\<close>

definition base64_alphabet :: string where
  "base64_alphabet = ''ABCDEFGHIJKLMNOPQRSTUVWXYZabcdefghijklmnopqrstuvwxyz0123456789+/''"

definition base64url_alphabet :: string where
  "base64url_alphabet = ''ABCDEFGHIJKLMNOPQRSTUVWXYZabcdefghijklmnopqrstuvwxyz0123456789-_''"

fun base64_encode :: "string \<Rightarrow> bool \<Rightarrow> byte list \<Rightarrow> string" where
  "base64_encode al pad [] = []"
| "base64_encode al pad [a] =
     [al ! (unat a div 4), al ! (unat a mod 4 * 16)] @ (if pad then ''=='' else [])"
| "base64_encode al pad [a, b] =
     [al ! (unat a div 4), al ! (unat a mod 4 * 16 + unat b div 16), al ! (unat b mod 16 * 4)]
     @ (if pad then ''='' else [])"
| "base64_encode al pad (a # b # c # rest) =
     [al ! (unat a div 4), al ! (unat a mod 4 * 16 + unat b div 16),
      al ! (unat b mod 16 * 4 + unat c div 64), al ! (unat c mod 64)]
     @ base64_encode al pad rest"

definition to_base64 :: "byte list \<Rightarrow> string" where
  "to_base64 bs = base64_encode base64_alphabet True bs"

definition to_base64url :: "byte list \<Rightarrow> string" where
  "to_base64url bs = base64_encode base64url_alphabet False bs"

text \<open>\<open>Buffer.from(s)\<close> for a string of ASCII characters.\<close>

definition bytes_of :: "string \<Rightarrow> byte list" where
  "bytes_of s = map (\<lambda>c. of_nat (of_char c)) s"

text \<open>\<open>s.slice(a, b)\<close> for \<open>0 \<le> a \<le> b\<close>.\<close>

definition slice :: "nat \<Rightarrow> nat \<Rightarrow> string \<Rightarrow> string" where
  "slice a b s = take (b - a) (drop a s)"

text \<open>A natural number in a template string.\<close>

fun decimal :: "nat \<Rightarrow> string" where
  "decimal n =
     (if n < 10 then [''0123456789'' ! n] else decimal (n div 10) @ [''0123456789'' ! (n mod 10)])"

declare decimal.simps [simp del]

text \<open>\<open>generateUUID()\<close>\<close>

definition generateUUID :: "rng \<Rightarrow> string \<times> rng" where
  "generateUUID r =
     (let (bytes, r') = randomBytes 16 r;
          bytes6 = bytes[6 := (bytes ! 6 AND 0x0f) OR 0x40];
          bytes8 = bytes6[8 := (bytes6 ! 8 AND 0x3f) OR 0x80];
          hex = to_hex bytes8
      in (slice 0 8 hex @ ''-'' @ slice 8 12 hex @ ''-'' @ slice 12 16 hex @ ''-''
            @ slice 16 20 hex @ ''-'' @ drop 20 hex, r'))"

section \<open>The secret generator: generateSecret\<close>

record secret_data =
  secret :: string
  hash :: string
  type :: string
  generatedAt :: string
  metadata :: jsval

text \<open>
  The value and the metadata of each case of the \<open>switch\<close>, with the clock of the \<open>token\<close>
  case (\<open>Date.now()\<close>, in milliseconds) and the random source. \<open>lower\<close> stands for
  \<open>String.prototype.toLowerCase\<close>.
\<close>

definition secret_value ::
  "(string \<Rightarrow> string) \<Rightarrow> string \<Rightarrow> nat \<Rightarrow> rng \<Rightarrow> (string \<times> jsval) \<times> rng" where
  \<open>secret_value lower secretType now r =
     (if lower secretType = ''api-key'' then
        (let (prefix, r1) = generateRandomString 4 ''alpha'' r;
             (key, r2) = generateRandomString 32 ''alphanumeric'' r1
         in ((lower prefix @ ''_'' @ key,
              JObj [(''format'', JStr ''prefix_key''), (''keyLength'', JNum 32)]), r2))
      else if lower secretType = ''password'' then
        (let (pw, r1) = generateRandomString 24 ''alphanumericSpecial'' r
         in ((pw, JObj [(''format'', JStr ''strong_password''), (''length'', JNum 24),
                        (''hasSpecialChars'', JBool True)]), r1))
      else if lower secretType = ''token'' then
        (let header = to_base64url (bytes_of ''{"alg":"HS256","typ":"JWT"}'');
             (uuid, r1) = generateUUID r;
             payload = to_base64url (bytes_of
                         (''{"iat":'' @ decimal (now div 1000) @ '',"jti":"'' @ uuid @ ''"}''));
             (sig, r2) = randomBytes 32 r1
         in ((header @ ''.'' @ payload @ ''.'' @ to_base64url sig,
              JObj [(''format'', JStr ''jwt-like'')]), r2))
      else if lower secretType = ''uuid'' then
        (let (uuid, r1) = generateUUID r
         in ((uuid, JObj [(''format'', JStr ''uuid-v4'')]), r1))
      else if lower secretType = ''hex'' then
        (let (bytes, r1) = randomBytes 32 r
         in ((to_hex bytes, JObj [(''format'', JStr ''hex''), (''bits'', JNum 256)]), r1))
      else if lower secretType = ''private-key'' then
        (let (bytes, r1) = randomBytes 32 r
         in ((''0x'' @ to_hex bytes,
              JObj [(''format'', JStr ''ethereum-compatible''), (''bits'', JNum 256)]), r1))
      else
        (let (bytes, r1) = randomBytes 32 r
         in ((to_base64 bytes, JObj [(''format'', JStr ''base64''), (''bytes'', JNum 32)]), r1)))\<close>

text \<open>
  \<open>generateSecret(secretType)\<close>. \<open>sha256\<close> stands for
  \<open>createHash('sha256').update(v).digest('hex')\<close>, \<open>timestamp\<close> for
  \<open>new Date().toISOString()\<close>.
\<close>

definition generateSecret ::
  "(string \<Rightarrow> string) \<Rightarrow> (string \<Rightarrow> string) \<Rightarrow> string \<Rightarrow> string \<Rightarrow> nat \<Rightarrow> rng
     \<Rightarrow> secret_data \<times> rng" where
  "generateSecret sha256 lower secretType timestamp now r =
     (let ((secretValue, meta), r') = secret_value lower secretType now r;
          secretHash = sha256 secretValue
      in (\<lparr>secret = secretValue, hash = secretHash, type = secretType,
           generatedAt = timestamp, metadata = meta\<rparr>, r'))"

section \<open>The secret generator: configuration, arguments and the push\<close>

text \<open>
  \<open>IEXEC_APP_DEVELOPER_SECRET\<close>: unset or empty, not JSON, or a JSON document.
\<close>

datatype dev_secret = Unset | NotJson | Json jsval

record app_config =
  privateKey :: jsval
  smsUrl :: jsval
  rpcUrl :: jsval

text \<open>\<open>parseAppSecret()\<close>; \<open>None\<close> is its \<open>null\<close>.\<close>

definition parseAppSecret :: "dev_secret \<Rightarrow> app_config option" where
  "parseAppSecret s =
     (case s of
        Unset \<Rightarrow> None
      | NotJson \<Rightarrow> None
      | Json config \<Rightarrow>
          (case get_prop config ''DEDICATED_PRIVATE_KEY'' of
             None \<Rightarrow> None
           | Some key \<Rightarrow>
               Some \<lparr>privateKey = key,
                     smsUrl = js_or (js_get config ''SMS_URL'')
                                (JStr ''https://sms.arbitrum-sepolia-testnet.iex.ec''),
                     rpcUrl = js_or (js_get config ''RPC_URL'')
                                (JStr ''https://sepolia-rollup.arbitrum.io/rpc'')\<rparr>))"

text \<open>What the SDK and \<open>ethers\<close> answer inside the enclave.\<close>

record sdk =
  isAddress :: "string \<Rightarrow> bool"
  signer :: "unit attempt"                                  \<comment> \<open>\<open>getSignerFromPrivateKey\<close>, \<open>new IExec\<close>\<close>
  walletAddress :: "string attempt"                         \<comment> \<open>\<open>wallet.getAddress\<close>\<close>
  pushAppSecret :: "string \<Rightarrow> string \<Rightarrow> bool attempt"    \<comment> \<open>by application address and value\<close>

definition push_failed :: "jsval \<Rightarrow> jsval" where
  "push_failed message = JObj [(''success'', JBool False), (''error'', message)]"

text \<open>
  \<open>pushSecretToSMS(targetAppAddress, secretName, secretValue, config)\<close>: the object it
  returns, and the pushes the store has accepted (application address and value). Its
  second message converts \<open>config.smsUrl\<close> to a string ahead of the \<open>try\<close>: when that
  throws, so does the function (\<open>None\<close>).
\<close>

definition pushSecretToSMS ::
  "sdk \<Rightarrow> app_config \<Rightarrow> string \<Rightarrow> string \<Rightarrow> (jsval \<times> (string \<times> string) list) option" where
  "pushSecretToSMS k config targetAppAddress secretValue =
     (if \<not> stringifiable (smsUrl config) then None
      else Some
     (if targetAppAddress = [] \<or> \<not> isAddress k targetAppAddress
      then (push_failed (JStr ''Invalid or missing Consume App Address. Cannot push App Secret.''), [])
      else (case signer k of
              Throws e \<Rightarrow> (push_failed (env_val e), [])
            | Returns u \<Rightarrow>
          (case walletAddress k of
              Throws e \<Rightarrow> (push_failed (env_val e), [])
            | Returns owner \<Rightarrow>
          (case pushAppSecret k targetAppAddress secretValue of
              Throws e \<Rightarrow> (push_failed (env_val e), [])
            | Returns isPushed \<Rightarrow>
                if isPushed
                then (JObj [(''success'', JBool True),
                            (''secretName'', JStr ''IEXEC_APP_DEVELOPER_SECRET''),
                            (''address'', JStr owner)],
                      [(targetAppAddress, secretValue)])
                else (push_failed (JStr ''Failed to push App Secret (SDK returned false)''), []))))))"

text \<open>\<open>s.split(',')\<close> and \<open>args.join(' ')\<close>.\<close>

fun split_commas :: "string \<Rightarrow> string list" where
  "split_commas [] = [[]]"
| "split_commas (c # cs) =
     (if c = CHR '','' then [] # split_commas cs
      else (case split_commas cs of
              [] \<Rightarrow> [[c]]
            | p # ps \<Rightarrow> (c # p) # ps))"

fun join_spaces :: "string list \<Rightarrow> string" where
  "join_spaces [] = []"
| "join_spaces [a] = a"
| "join_spaces (a # b # rest) = a @ '' '' @ join_spaces (b # rest)"

text \<open>\<open>parts[i] || fallback\<close>\<close>

definition part_or :: "string list \<Rightarrow> nat \<Rightarrow> string \<Rightarrow> string" where
  "part_or parts i fallback = (if i < length parts \<and> parts ! i \<noteq> [] then parts ! i else fallback)"

record parsed_args =
  consumeAppAddress :: "string option"   \<comment> \<open>\<open>None\<close>: \<open>null\<close> or left out\<close>
  secretName :: string
  secretType :: string

text \<open>
  \<open>parseArgs(args)\<close>, with \<open>Date.now()\<close>. \<open>strip\<close> stands for \<open>String.prototype.trim\<close>.
\<close>

definition parseArgs :: "(string \<Rightarrow> string) \<Rightarrow> nat \<Rightarrow> string list \<Rightarrow> parsed_args" where
  "parseArgs strip now args =
     (let argString = strip (join_spaces args)
      in if argString = []
         then \<lparr>consumeAppAddress = None, secretName = ''secret-'' @ decimal now,
               secretType = ''random''\<rparr>
         else (let parts = map strip (split_commas argString)
               in if part_or parts 0 [] \<noteq> [] \<and> take 2 (parts ! 0) = ''0x''
                  then \<lparr>consumeAppAddress = Some (parts ! 0),
                        secretName = part_or parts 1 (''secret-'' @ decimal now),
                        secretType = part_or parts 2 ''random''\<rparr>
                  else \<lparr>consumeAppAddress = None,
                        secretName = part_or parts 0 (''secret-'' @ decimal now),
                        secretType = part_or parts 1 ''random''\<rparr>))"

section \<open>The secret generator: main\<close>

record generator_env =
  appDeveloperSecret :: dev_secret          \<comment> \<open>\<open>IEXEC_APP_DEVELOPER_SECRET\<close>\<close>
  defaultConsumeApp :: "string option"      \<comment> \<open>\<open>CONSUME_APP_ADDRESS\<close>\<close>
  argv :: "string list"                     \<comment> \<open>\<open>process.argv.slice(2)\<close>\<close>
  resultPath :: string                      \<comment> \<open>\<open>join(IEXEC_OUT, 'result.json')\<close>\<close>
  sha256 :: "string \<Rightarrow> string"             \<comment> \<open>\<open>createHash('sha256').update(v).digest('hex')\<close>\<close>
  toLowerCase :: "string \<Rightarrow> string"        \<comment> \<open>\<open>String.prototype.toLowerCase\<close>\<close>
  trim :: "string \<Rightarrow> string"               \<comment> \<open>\<open>String.prototype.trim\<close>\<close>
  entropy :: rng
  argsClock :: nat                          \<comment> \<open>\<open>Date.now()\<close> in \<open>parseArgs\<close>\<close>
  isoClock :: string                        \<comment> \<open>\<open>new Date().toISOString()\<close> in \<open>generateSecret\<close>\<close>
  tokenClock :: nat                         \<comment> \<open>\<open>Date.now()\<close> in \<open>generateSecret\<close>\<close>
  services :: sdk

text \<open>
  What a run of the secret generator leaves behind. When \<open>main\<close> throws, its \<open>catch\<close>
  handler calls \<open>process.exit(1)\<close> and nothing has been written: the two documents are
  \<open>undefined\<close>.
\<close>

record generator_result =
  result_json :: jsval                      \<comment> \<open>what is written to \<open>result.json\<close>\<close>
  computed_json :: jsval                    \<comment> \<open>what is written to \<open>computed.json\<close>\<close>
  pushed :: "(string \<times> string) list"        \<comment> \<open>the pushes the store accepted\<close>
  exit_code :: nat                          \<comment> \<open>0 when \<open>main\<close> returns\<close>

text \<open>The \<open>output\<close> object of \<open>main\<close>, as \<open>JSON.stringify\<close> writes it.\<close>

definition output_json :: "jsval \<Rightarrow> string \<Rightarrow> secret_data \<Rightarrow> jsval" where
  "output_json pushResult name secretData =
     json_object
       [(''success'', js_get pushResult ''success''),
        (''secretName'', js_or (js_get pushResult ''secretName'') (JStr name)),
        (''dedicatedAddress'', js_get pushResult ''address''),
        (''secretInfo'', json_object
           [(''hash'', JStr (hash secretData)),
            (''type'', JStr (type secretData)),
            (''generatedAt'', JStr (generatedAt secretData)),
            (''metadata'', metadata secretData)]),
        (''smsInfo'', json_object
           [(''pushed'', js_get pushResult ''success''),
            (''error'', js_or (js_get pushResult ''error'') JNull)]),
        (''consumeInstructions'', json_object
           [(''description'', JStr ''To use this secret in ConsumeApp:''),
            (''requesterAddress'', js_get pushResult ''address''),
            (''secretType'', JStr ''App Secret (Global)''),
            (''note'', JStr ''The secret is set as the App Owner Secret for the Consume App.'')])]"

definition computed :: "string \<Rightarrow> jsval" where
  "computed path = json_object [(''deterministic-output-path'', JStr path)]"

text \<open>\<open>a || b\<close> on two optional strings.\<close>

definition or_else :: "string option \<Rightarrow> string option \<Rightarrow> string option" where
  "or_else a b = (if truthy (env_val a) then a else b)"

text \<open>\<open>main()\<close> of the secret generator.\<close>

definition generator_main :: "generator_env \<Rightarrow> generator_result" where
  "generator_main env =
     (case parseAppSecret (appDeveloperSecret env) of
        None \<Rightarrow> \<lparr>result_json = json_object
                     [(''success'', JBool False),
                      (''error'', JStr ''App Secret not configured''),
                      (''instructions'',
                       JStr ''Deploy this iApp with an App Secret containing DEDICATED_PRIVATE_KEY'')],
                 computed_json = computed (resultPath env), pushed = [], exit_code = 0\<rparr>
      | Some appConfig \<Rightarrow>
          if \<not> truthy (privateKey appConfig)
          then \<lparr>result_json = json_object
                     [(''success'', JBool False),
                      (''error'', JStr ''App Secret not configured''),
                      (''instructions'',
                       JStr ''Deploy this iApp with an App Secret containing DEDICATED_PRIVATE_KEY'')],
                 computed_json = computed (resultPath env), pushed = [], exit_code = 0\<rparr>
          else (let args = parseArgs (trim env) (argsClock env) (argv env);
                    targetAddress = or_else (consumeAppAddress args) (defaultConsumeApp env);
                    secretData = fst (generateSecret (sha256 env) (toLowerCase env) (secretType args)
                                        (isoClock env) (tokenClock env) (entropy env));
                    pushing =
                      (case targetAddress of
                         Some address \<Rightarrow>
                           if address \<noteq> []
                           then pushSecretToSMS (services env) appConfig address (secret secretData)
                           else Some (push_failed (JStr ''No Consume App Address provided''), [])
                       | None \<Rightarrow> Some (push_failed (JStr ''No Consume App Address provided''), []))
                in case pushing of
                     None \<Rightarrow> \<lparr>result_json = Undefined, computed_json = Undefined, pushed = [],
                              exit_code = 1\<rparr>
                   | Some (pushResult, accepted) \<Rightarrow>
                       \<lparr>result_json = output_json pushResult (secretName args) secretData,
                        computed_json = computed (resultPath env),
                        pushed = accepted, exit_code = 0\<rparr>))"

text \<open>
  The arguments the flow script gives the secret generator (\<open>iexec_args\<close> of
  \<open>executeTargetApp\<close>), with \<open>Date.now()\<close> of the script's \<open>main\<close>.
\<close>

definition target_args :: "string option \<Rightarrow> nat \<Rightarrow> string" where
  "target_args consumer now =
     (case consumer of None \<Rightarrow> ''undefined'' | Some a \<Rightarrow> a)
     @ '','' @ (''app-secret-test-'' @ decimal now) @ '',api-key''"

section \<open>Sample runs and vocabulary of the properties\<close>

definition completed_exec :: "jsval \<Rightarrow> exec_env" where
  "completed_exec location =
     \<lparr>app_order = Returns (),
      orders = Returns (Some [JObj [(''order'', JObj [])]]),
      request_order = Returns (),
      deal_task = Returns ''0xtask'',
      task_feed = Returns [Next ''TASK_UPDATED'' (JObj [(''statusName'', JStr ''ACTIVE'')]),
                           Next ''TASK_COMPLETED'' (JObj [(''statusName'', JStr ''COMPLETED'')]),
                           Complete],
      task_show = Returns (JObj [(''results'', JObj [(''location'', location)])]),
      type_error = (\<lambda>p. ''Cannot read properties of undefined (reading '' @ p @ '')'')\<rparr>"

definition sample_env :: "lockfile \<Rightarrow> fetched \<Rightarrow> fetched \<Rightarrow> flow_env" where
  "sample_env lk produced consumed =
     \<lparr>consumeApp = Some ''0xC0'',
      lock0 = lk,
      wallet = Returns ''0xA0'',
      setup_push = Returns True,
      target_exec = completed_exec (JStr ''/ipfs/p''),
      consume_exec = completed_exec (JStr ''/ipfs/c''),
      fetch = (\<lambda>location. if location = JStr ''/ipfs/p'' then produced else consumed),
      save_time = ''2025-01-01T00:00:00.000Z''\<rparr>"

definition stale_record :: jsval where
  "stale_record = JObj [(''appAddress'', JStr ''0xB0''), (''secretHash'', JStr ''d1'')]"

definition stale_env :: flow_env where
  "stale_env =
     sample_env (Content stale_record)
       (Document (JObj [(''secretInfo'', JObj [(''hash'', JStr ''d2'')])]))
       (Document (JObj [(''hashes'', JObj [(''sha256'', JStr ''d2'')])]))"

definition undigested_env :: "jsval \<Rightarrow> flow_env" where
  "undigested_env record =
     sample_env (Content record)
       (Document (JObj [(''secretInfo'', JObj [(''hash'', JStr ''d2'')])]))
       (Document (JObj [(''hashes'', JObj [(''sha256'', JStr ''d2'')])]))"

definition failing_producer_env :: "string option \<Rightarrow> flow_env" where
  "failing_producer_env message =
     (sample_env NoFile (FetchFailed None)
        (Document (JObj [(''hashes'', JObj [(''sha256'', JStr ''d2'')])])))
     \<lparr>target_exec := (completed_exec (JStr ''/ipfs/p''))\<lparr>deal_task := Throws message\<rparr>\<rparr>"

definition settling :: "feed_event \<Rightarrow> bool" where
  "settling e =
     (case e of
        Next message task \<Rightarrow>
          truthy task \<and> (strict_eq (js_get task ''statusName'') (JStr ''COMPLETED'')
                        \<or> strict_eq (js_get task ''statusName'') (JStr ''FAILED'')
                        \<or> strict_eq (js_get task ''statusName'') (JStr ''TIMEDOUT''))
      | Error err \<Rightarrow> False
      | Complete \<Rightarrow> True)"



text \<open>
  A stand-in for SHA-256 in the sample runs: the programs only apply the hash function.
\<close>

definition sample_digest :: "string \<Rightarrow> string" where
  "sample_digest v = decimal (foldr (\<lambda>c n. (of_char c + 31 * n) mod 65521) v 7)"

text \<open>
  Stand-ins for \<open>toLowerCase\<close> and \<open>trim\<close> in the sample runs, whose strings are ASCII.
\<close>

definition lower_char :: "char \<Rightarrow> char" where
  "lower_char c =
     (case map_of (zip ''ABCDEFGHIJKLMNOPQRSTUVWXYZ'' ''abcdefghijklmnopqrstuvwxyz'') c of
        Some l \<Rightarrow> l
      | None \<Rightarrow> c)"

definition ascii_lower :: "string \<Rightarrow> string" where
  "ascii_lower s = map lower_char s"

definition is_space :: "char \<Rightarrow> bool" where
  "is_space c = (of_char c \<in> {9, 10, 11, 12, 13, 32 :: nat})"

definition ascii_trim :: "string \<Rightarrow> string" where
  "ascii_trim s = rev (dropWhile is_space (rev (dropWhile is_space s)))"

definition sample_sdk :: "bool attempt \<Rightarrow> sdk" where
  "sample_sdk answer =
     \<lparr>isAddress = (\<lambda>a. length a = 42 \<and> take 2 a = ''0x''),
      signer = Returns (),
      walletAddress = Returns ''0xA0'',
      pushAppSecret = (\<lambda>a v. answer)\<rparr>"

definition consumer_address :: string where
  "consumer_address = ''0x00000000000000000000000000000000000000C0''"

definition sample_entropy :: rng where
  "sample_entropy i = of_nat (i * 37 + 11)"

definition sample_config :: app_config where
  "sample_config =
     \<lparr>privateKey = JStr ''0xkey'',
      smsUrl = JStr ''https://sms.arbitrum-sepolia-testnet.iex.ec'',
      rpcUrl = JStr ''https://sepolia-rollup.arbitrum.io/rpc''\<rparr>"

definition sample_generator :: "string list \<Rightarrow> sdk \<Rightarrow> generator_env" where
  "sample_generator args k =
     \<lparr>appDeveloperSecret = Json (JObj [(''DEDICATED_PRIVATE_KEY'', JStr ''0xkey'')]),
      defaultConsumeApp = None,
      argv = args,
      resultPath = ''/iexec_out/result.json'',
      sha256 = sample_digest,
      toLowerCase = ascii_lower,
      trim = ascii_trim,
      entropy = sample_entropy,
      argsClock = 41,
      isoClock = ''2025-01-01T00:00:00.000Z'',
      tokenClock = 2000,
      services = k\<rparr>"



definition sample_run :: "sdk \<Rightarrow> generator_result" where
  "sample_run k = generator_main (sample_generator [target_args (Some consumer_address) 42] k)"

definition sample_flow :: "jsval \<Rightarrow> flow_env" where
  "sample_flow produced =
     (sample_env NoFile (Document produced)
        (Document (JObj [(''hashes'', JObj [(''sha256'', JStr ''d2'')])])))
     \<lparr>consumeApp := Some consumer_address\<rparr>"


definition refused_setup_env :: flow_env where
  "refused_setup_env =
     (sample_env NoFile (FetchFailed None) (FetchFailed None))
     \<lparr>setup_push := Throws (Some ''network error'')\<rparr>"







section \<open>Properties\<close>

subsection \<open>Reading values and tracing the steps of a run\<close>

lemma truthy_get_prop: "truthy v \<Longrightarrow> get_prop v k \<noteq> None"
  by (cases v) auto

lemma strict_eq_env_val: "strict_eq a (env_val c) \<longleftrightarrow> a = env_val c"
  by (cases a; cases c) auto

lemma stages_consume_and_verify:
  "stages (consume_and_verify env st h lk done) = done @ [Consumer] \<or>
   stages (consume_and_verify env st h lk done) = done @ [Consumer, ConsumerFetch] \<or>
   stages (consume_and_verify env st h lk done) = done @ [Consumer, ConsumerFetch, Verify]"
  by (simp add: consume_and_verify_def Let_def split: option.splits attempt.splits)

lemma lock_consume_and_verify: "lock (consume_and_verify env st h lk done) = lk"
  by (simp add: consume_and_verify_def Let_def split: option.splits attempt.splits)

lemma Producer_consume_and_verify:
  "Producer \<in> set (stages (consume_and_verify env st h lk done)) \<longleftrightarrow> Producer \<in> set done"
  using stages_consume_and_verify [of env st h lk "done"] by auto

lemma Consumer_consume_and_verify:
  "Consumer \<in> set (stages (consume_and_verify env st h lk done))"
  using stages_consume_and_verify [of env st h lk "done"] by auto

lemma SaveLock_consume_and_verify:
  "SaveLock x \<in> set (stages (consume_and_verify env st h lk done)) \<longleftrightarrow> SaveLock x \<in> set done"
  using stages_consume_and_verify [of env st h lk "done"] by auto

lemma Producer_provision: "Producer \<in> set (stages (provision env st))"
  by (simp add: provision_def Let_def Producer_consume_and_verify split: option.splits attempt.splits)

lemma stringifiable_js_or: "stringifiable a \<Longrightarrow> stringifiable b \<Longrightarrow> stringifiable (js_or a b)"
  by (simp add: js_or_def)

lemma falsy_stringifiable: "\<not> truthy v \<Longrightarrow> stringifiable v"
  by (cases v) auto

text \<open>
  When step 3 is reached with an expected digest that has a string, the run ends there with
  the verification of that digest.
\<close>

lemma verify_reached:
  assumes "Verify \<in> set (stages (consume_and_verify env st t lk done))"
    and "Verify \<notin> set done"
    and "stringifiable t"
  shows "ending (consume_and_verify env st t lk done) = Done
    \<and> (\<exists>c. report (consume_and_verify env st t lk done) = verification t c st)"
proof (cases "executeConsumeApp (consume_exec env)")
  case None
  with assms show ?thesis by (simp add: consume_and_verify_def)
next
  case (Some outcome)
  show ?thesis
  proof (cases outcome)
    case (Throws e)
    with Some assms show ?thesis by (simp add: consume_and_verify_def)
  next
    case (Returns location)
    let ?d = "fetchResult (fetch env location)"
    let ?c = "if truthy ?d then opt_prop (js_get ?d ''hashes'') ''sha256'' else Undefined"
    have t: "stringifiable (js_or t (JStr ''Unknown''))"
      using assms(3) by (simp add: stringifiable_js_or)
    have c: "stringifiable (js_or ?c (JStr ''N/A''))" if "truthy ?d \<longrightarrow> stringifiable ?c"
      using that by (auto simp: js_or_def)
    show ?thesis
      using Some Returns assms(1,2) t c
      by (auto simp: consume_and_verify_def Let_def split: if_splits)
  qed
qed

lemma consume_and_verify_lock0:
  "consume_and_verify (env\<lparr>lock0 := l\<rparr>) st h lk done = consume_and_verify env st h lk done"
  by (simp add: consume_and_verify_def split: option.splits attempt.splits)

lemma settle_None: "settle es = None \<longleftrightarrow> (\<forall>e \<in> set es. \<not> settling e)"
  by (induction es rule: settle.induct) (auto simp: settling_def split: jsval.splits)

lemma not_settling: "\<not> settling e \<Longrightarrow> settle (e # es) = settle es"
  by (cases e) (auto simp: settling_def)

lemma settle_skip: "\<forall>x \<in> set pre. \<not> settling x \<Longrightarrow> settle (pre @ es) = settle es"
  by (induction pre) (simp_all add: not_settling)

lemma executeApp_completed: "executeApp (completed_exec l) = Some (Returns l)"
  by (simp add: executeApp_def completed_exec_def fetchWorkerpoolOrder_def waitForTask_def
      js_get_def opt_prop_def)

lemmas run_defs = main_def provision_def consume_and_verify_def sample_env_def
  executeTargetApp_def executeConsumeApp_def executeApp_completed setupTargetAppPermissions_def
  getLockState_def fetchResult_def target_hash_def js_get_def opt_prop_def verification_def
  js_or_def saveLockState_def json_object_def reuse_banner_def Let_def

subsection \<open>Verification\<close>

text \<open>
  With the expected digest \<open>d1\<close> at hand, an observed digest that is absent and an observed
  digest that is the string \<open>N/A\<close> give the same report, and after the two displayed values
  an absent and an unequal observed digest give the same single line.
\<close>

theorem C6_counterexample:
  "verification (JStr ''d1'') Undefined JNull = verification (JStr ''d1'') (JStr ''N/A'') JNull
   \<and> drop 2 (verification (JStr ''d1'') Undefined JNull)
       = drop 2 (verification (JStr ''d1'') (JStr ''d2'') JNull)"
  by (simp add: verification_def js_or_def)

text \<open>
  Claim C6, as amended. Step 3 reports a match exactly when both digests are truthy and
  strictly equal, and a mismatch otherwise. The note on the missing target hash is added
  exactly when the expected digest is absent. An absent observed digest has no report of its
  own: when the expected digest is present, the report after the two displayed values is the
  one line of the mismatch, whether the observed digest is absent or different.
\<close>

theorem C6_verification:
  "(HashesMatch \<in> set (verification t c e) \<longleftrightarrow> truthy t \<and> truthy c \<and> strict_eq t c)
   \<and> (HashMismatch \<in> set (verification t c e) \<longleftrightarrow> \<not> (truthy t \<and> truthy c \<and> strict_eq t c))
   \<and> (MissingTargetHash \<in> set (verification t c e) \<longleftrightarrow> \<not> truthy t)
   \<and> (truthy t \<and> \<not> (truthy c \<and> strict_eq t c) \<longrightarrow> drop 2 (verification t c e) = [HashMismatch])"
  by (auto simp: verification_def)

theorem C6_verification_witness:
  "truthy (JStr ''d1'') \<and> \<not> (truthy Undefined \<and> strict_eq (JStr ''d1'') Undefined)
   \<and> HashMismatch \<in> set (verification (JStr ''d1'') Undefined JNull)
   \<and> MissingTargetHash \<notin> set (verification (JStr ''d1'') Undefined JNull)
   \<and> drop 2 (verification (JStr ''d1'') Undefined JNull) = [HashMismatch]"
  using C6_verification [of "JStr ''d1''" Undefined JNull] by simp

subsection \<open>Waiting for a task\<close>

text \<open>
  A feed that reports the task as active and then stays silent leaves the promise of
  \<open>waitForTask\<close> unsettled: no error is raised, and \<open>main\<close> of the script, left waiting in
  step 1, runs none of its later steps.
\<close>

theorem C7_counterexample:
  "waitForTask (Returns [Next ''TASK_UPDATED'' (JObj [(''statusName'', JStr ''ACTIVE'')])]) = None
   \<and> ending (main ((sample_env NoFile (FetchFailed None) (FetchFailed None))
        \<lparr>target_exec := (completed_exec (JStr ''/ipfs/p''))
           \<lparr>task_feed := Returns [Next ''TASK_UPDATED'' (JObj [(''statusName'', JStr ''ACTIVE'')])]\<rparr>\<rparr>))
       = Unfinished
   \<and> stages (main ((sample_env NoFile (FetchFailed None) (FetchFailed None))
        \<lparr>target_exec := (completed_exec (JStr ''/ipfs/p''))
           \<lparr>task_feed := Returns [Next ''TASK_UPDATED'' (JObj [(''statusName'', JStr ''ACTIVE'')])]\<rparr>\<rparr>))
       = [Setup, Producer]"
  by (simp add: waitForTask_def js_get_def main_def provision_def sample_env_def completed_exec_def
      executeTargetApp_def executeApp_def setupTargetAppPermissions_def getLockState_def
      fetchWorkerpoolOrder_def Let_def)

text \<open>
  Claim C7, as amended. The wait has no bound of its own: there is no timer and no error
  for a timeout. Up to the first delivery that settles it (a task with status COMPLETED,
  FAILED or TIMEDOUT, or the completion of the feed) all deliveries, errors of the feed
  among them, are passed over. The wait resolves with the task when that delivery is a
  task with status COMPLETED, resolves with \<open>undefined\<close> when it is the completion of the
  feed, and rejects with the message \<open>Task ended with status\<close> and the status when it is a
  task with status FAILED or TIMEDOUT. When no delivery settles it, the promise stays
  unsettled, the function that runs the application never returns, and a run that is
  provisioning stops there: it is left waiting in step 1 with the lock file untouched.
\<close>

theorem C7_wait_unbounded:
  "(waitForTask (Returns es) = None \<longleftrightarrow> (\<forall>e \<in> set es. \<not> settling e))
   \<and> (\<forall>pre post. (\<forall>e \<in> set pre. \<not> settling e) \<longrightarrow>
         waitForTask (Returns (pre @ Complete # post)) = Some (Returns Undefined)
         \<and> (\<forall>m t. truthy t \<and> js_get t ''statusName'' = JStr ''COMPLETED''
               \<longrightarrow> waitForTask (Returns (pre @ Next m t # post)) = Some (Returns t))
         \<and> (\<forall>m t s. truthy t \<and> js_get t ''statusName'' = JStr s
                 \<and> (s = ''FAILED'' \<or> s = ''TIMEDOUT'')
               \<longrightarrow> waitForTask (Returns (pre @ Next m t # post))
                   = Some (Throws (Some (''Task ended with status '' @ s)))))
   \<and> (executeApp x = None \<longleftrightarrow>
         (\<exists>u workerpoolOrder u' taskId.
            app_order x = Returns u
            \<and> fetchWorkerpoolOrder (type_error x) (orders x) = Returns workerpoolOrder
            \<and> request_order x = Returns u' \<and> deal_task x = Returns taskId)
         \<and> waitForTask (task_feed x) = None)
   \<and> (\<forall>w. wallet env = Returns w
          \<and> setupTargetAppPermissions (setup_push env) = Returns ()
          \<and> \<not> (truthy (getLockState (consumeApp env) (lock0 env))
                 \<and> truthy (js_get (getLockState (consumeApp env) (lock0 env)) ''secretHash''))
          \<and> executeTargetApp (target_exec env) = None
        \<longrightarrow> ending (main env) = Unfinished \<and> stages (main env) = [Setup, Producer]
            \<and> lock (main env) = lock0 env)"
proof -
  have unsettled: "waitForTask (Returns es) = None \<longleftrightarrow> (\<forall>e \<in> set es. \<not> settling e)"
    by (simp add: waitForTask_def settle_None)
  have first: "waitForTask (Returns (pre @ e # post)) = settle [e]"
    if "\<forall>x \<in> set pre. \<not> settling x" and "settling e" for pre e post
  proof -
    have "settle (e # post) = settle [e]"
      using that(2) by (cases e) (auto simp: settling_def split: jsval.splits)
    then show ?thesis
      by (simp add: waitForTask_def settle_skip [OF that(1)])
  qed
  have completes: "waitForTask (Returns (pre @ Complete # post)) = Some (Returns Undefined)"
    if "\<forall>x \<in> set pre. \<not> settling x" for pre post
    using first [OF that, of Complete post] by (simp add: settling_def)
  have resolves: "waitForTask (Returns (pre @ Next m t # post)) = Some (Returns t)"
    if "\<forall>x \<in> set pre. \<not> settling x" and "truthy t" and "js_get t ''statusName'' = JStr ''COMPLETED''"
    for pre post m t
    using first [OF that(1), of "Next m t" post] that(2,3) by (simp add: settling_def)
  have rejects: "waitForTask (Returns (pre @ Next m t # post))
      = Some (Throws (Some (''Task ended with status '' @ s)))"
    if "\<forall>x \<in> set pre. \<not> settling x" and "truthy t" and "js_get t ''statusName'' = JStr s"
      and "s = ''FAILED'' \<or> s = ''TIMEDOUT''"
    for pre post m t s
    using first [OF that(1), of "Next m t" post] that(2,3,4) by (auto simp: settling_def)
  have app: "executeApp x = None \<longleftrightarrow>
         (\<exists>u workerpoolOrder u' taskId.
            app_order x = Returns u
            \<and> fetchWorkerpoolOrder (type_error x) (orders x) = Returns workerpoolOrder
            \<and> request_order x = Returns u' \<and> deal_task x = Returns taskId)
         \<and> waitForTask (task_feed x) = None"
    by (auto simp: executeApp_def split: attempt.splits option.splits)
  have run: "ending (main env) = Unfinished \<and> stages (main env) = [Setup, Producer]
            \<and> lock (main env) = lock0 env"
    if "wallet env = Returns w"
      and "setupTargetAppPermissions (setup_push env) = Returns ()"
      and "\<not> (truthy (getLockState (consumeApp env) (lock0 env))
                 \<and> truthy (js_get (getLockState (consumeApp env) (lock0 env)) ''secretHash''))"
      and "executeTargetApp (target_exec env) = None" for w
    using that by (auto simp: main_def provision_def Let_def)
  show ?thesis
    using unsettled completes resolves rejects app run by blast
qed

theorem C7_wait_unbounded_witness:
  "\<not> settling (Error (Some ''Task not found''))
   \<and> \<not> settling (Next ''TASK_UPDATED'' (JObj [(''statusName'', JStr ''ACTIVE'')]))
   \<and> waitForTask (Returns [Error (Some ''Task not found''),
                           Next ''TASK_UPDATED'' (JObj [(''statusName'', JStr ''ACTIVE'')])]) = None
   \<and> waitForTask (Returns ([Error (Some ''Task not found''),
                            Next ''TASK_UPDATED'' (JObj [(''statusName'', JStr ''ACTIVE'')])]
                           @ Next ''TASK_COMPLETED'' (JObj [(''statusName'', JStr ''COMPLETED'')]) # [Complete]))
       = Some (Returns (JObj [(''statusName'', JStr ''COMPLETED'')]))
   \<and> waitForTask (Returns ([Error (Some ''Task not found''),
                            Next ''TASK_UPDATED'' (JObj [(''statusName'', JStr ''ACTIVE'')])]
                           @ Next ''TASK_FAILED'' (JObj [(''statusName'', JStr ''FAILED'')]) # [Complete]))
       = Some (Throws (Some ''Task ended with status FAILED''))
   \<and> waitForTask (Returns ([Error (Some ''Task not found''),
                            Next ''TASK_UPDATED'' (JObj [(''statusName'', JStr ''ACTIVE'')])]
                           @ Complete # []))
       = Some (Returns Undefined)
   \<and> executeApp ((completed_exec (JStr ''/ipfs/p''))
        \<lparr>task_feed := Returns [Error (Some ''Task not found''),
                               Next ''TASK_UPDATED'' (JObj [(''statusName'', JStr ''ACTIVE'')])]\<rparr>)
       = None
   \<and> ending (main ((sample_env NoFile (FetchFailed None) (FetchFailed None))
        \<lparr>target_exec := (completed_exec (JStr ''/ipfs/p''))
           \<lparr>task_feed := Returns [Error (Some ''Task not found''),
                                  Next ''TASK_UPDATED'' (JObj [(''statusName'', JStr ''ACTIVE'')])]\<rparr>\<rparr>))
       = Unfinished
   \<and> lock (main ((sample_env NoFile (FetchFailed None) (FetchFailed None))
        \<lparr>target_exec := (completed_exec (JStr ''/ipfs/p''))
           \<lparr>task_feed := Returns [Error (Some ''Task not found''),
                                  Next ''TASK_UPDATED'' (JObj [(''statusName'', JStr ''ACTIVE'')])]\<rparr>\<rparr>))
       = NoFile"
proof -
  let ?pre = "[Error (Some ''Task not found''),
               Next ''TASK_UPDATED'' (JObj [(''statusName'', JStr ''ACTIVE'')])]"
  let ?x = "(completed_exec (JStr ''/ipfs/p''))\<lparr>task_feed := Returns ?pre\<rparr>"
  let ?E = "(sample_env NoFile (FetchFailed None) (FetchFailed None))\<lparr>target_exec := ?x\<rparr>"
  have quiet: "\<forall>e \<in> set ?pre. \<not> settling e"
    by (simp add: settling_def js_get_def)
  have completed: "truthy (JObj [(''statusName'', JStr ''COMPLETED'')])
      \<and> js_get (JObj [(''statusName'', JStr ''COMPLETED'')]) ''statusName'' = JStr ''COMPLETED''"
    by (simp add: js_get_def)
  have failing: "truthy (JObj [(''statusName'', JStr ''FAILED'')])
      \<and> js_get (JObj [(''statusName'', JStr ''FAILED'')]) ''statusName'' = JStr ''FAILED''"
    by (simp add: js_get_def)
  from C7_wait_unbounded [of ?pre] quiet
  have a: "waitForTask (Returns ?pre) = None" by blast
  from C7_wait_unbounded [of ?pre] quiet completed
  have b: "waitForTask (Returns (?pre @ Next ''TASK_COMPLETED'' (JObj [(''statusName'', JStr ''COMPLETED'')]) # [Complete]))
       = Some (Returns (JObj [(''statusName'', JStr ''COMPLETED'')]))" by blast
  from C7_wait_unbounded [of ?pre] quiet failing
  have c: "waitForTask (Returns (?pre @ Next ''TASK_FAILED'' (JObj [(''statusName'', JStr ''FAILED'')]) # [Complete]))
       = Some (Throws (Some (''Task ended with status '' @ ''FAILED'')))" by blast
  from C7_wait_unbounded [of ?pre] quiet
  have d: "waitForTask (Returns (?pre @ Complete # [])) = Some (Returns Undefined)" by blast
  have orders: "app_order ?x = Returns ()
      \<and> fetchWorkerpoolOrder (type_error ?x) (orders ?x) = Returns (JObj [])
      \<and> request_order ?x = Returns () \<and> deal_task ?x = Returns ''0xtask''"
    by (simp add: completed_exec_def fetchWorkerpoolOrder_def js_get_def)
  have feed: "waitForTask (task_feed ?x) = None"
    using a by simp
  have "(\<exists>u workerpoolOrder u' taskId.
            app_order ?x = Returns u
            \<and> fetchWorkerpoolOrder (type_error ?x) (orders ?x) = Returns workerpoolOrder
            \<and> request_order ?x = Returns u' \<and> deal_task ?x = Returns taskId)
         \<and> waitForTask (task_feed ?x) = None"
    using orders feed by blast
  with C7_wait_unbounded [of _ ?x]
  have e: "executeApp ?x = None" by (simp only:)
  have w: "wallet ?E = Returns ''0xA0''
      \<and> setupTargetAppPermissions (setup_push ?E) = Returns ()
      \<and> \<not> (truthy (getLockState (consumeApp ?E) (lock0 ?E))
             \<and> truthy (js_get (getLockState (consumeApp ?E) (lock0 ?E)) ''secretHash''))"
    by (simp add: sample_env_def setupTargetAppPermissions_def getLockState_def)
  have t: "executeTargetApp (target_exec ?E) = None"
    using e by (simp add: executeTargetApp_def)
  have l: "lock0 ?E = NoFile"
    by (simp add: sample_env_def)
  from C7_wait_unbounded [of _ _ ?E] w t
  have f: "ending (main ?E) = Unfinished \<and> lock (main ?E) = lock0 ?E" by blast
  from quiet a b c d e f l show ?thesis by simp
qed

subsection \<open>The lock file and the choice between reuse and provisioning\<close>

lemma consume_and_verify_any_lock:
  "ending (consume_and_verify env st h lk done) = ending (consume_and_verify env st h lk' done)
   \<and> stages (consume_and_verify env st h lk done) = stages (consume_and_verify env st h lk' done)
   \<and> report (consume_and_verify env st h lk done) = report (consume_and_verify env st h lk' done)"
  by (simp add: consume_and_verify_def Let_def split: option.splits attempt.splits)

lemma provision_lock0:
  "ending (provision (env\<lparr>lock0 := l\<rparr>) st) = ending (provision env st)
   \<and> stages (provision (env\<lparr>lock0 := l\<rparr>) st) = stages (provision env st)
   \<and> report (provision (env\<lparr>lock0 := l\<rparr>) st) = report (provision env st)"
  using consume_and_verify_any_lock [of env st _ l _ "lock0 env"]
  by (auto simp: provision_def Let_def consume_and_verify_lock0
      split: option.splits attempt.splits)

lemma main_ok:
  assumes "wallet env = Returns w" and "setupTargetAppPermissions (setup_push env) = Returns ()"
  shows "main env =
     (let st = getLockState (consumeApp env) (lock0 env)
      in if truthy st \<and> truthy (js_get st ''secretHash'')
         then (if reuse_banner st
               then consume_and_verify env st (js_get st ''secretHash'') (lock0 env) [Setup]
               else \<lparr>ending = Exit 1, lock = lock0 env, stages = [Setup], report = []\<rparr>)
         else provision env st)"
  using assms by (simp add: main_def Let_def)

lemma getLockState_cases:
  "getLockState c f = JNull \<or>
   (\<exists>data. f = Content data \<and> get_prop data ''appAddress'' = Some (env_val c)
      \<and> getLockState c f = data)"
  by (auto simp: getLockState_def strict_eq_env_val split: lockfile.splits option.splits)

lemma getLockState_match:
  "get_prop data ''appAddress'' = Some (env_val c) \<Longrightarrow> getLockState c (Content data) = data"
  by (simp add: getLockState_def strict_eq_env_val)

lemma truthy_js_get: "truthy (js_get v k) \<Longrightarrow> truthy v"
  by (cases v) (auto simp: js_get_def)

text \<open>
  Claim C8. A lock file whose \<open>appAddress\<close> differs from the consumer application of this
  run is read as no record at all: \<open>getLockState\<close> returns \<open>null\<close>, the run ends, proceeds
  and reports as it does without a lock file, and once the wallet and the permission setup
  have succeeded it takes the provisioning branch and runs the producer.
\<close>

theorem C8_mismatch_not_reused:
  assumes "lock0 env = Content data"
    and "get_prop data ''appAddress'' = Some a"
    and "a \<noteq> env_val (consumeApp env)"
  shows "getLockState (consumeApp env) (lock0 env) = JNull
    \<and> ending (main env) = ending (main (env\<lparr>lock0 := NoFile\<rparr>))
    \<and> stages (main env) = stages (main (env\<lparr>lock0 := NoFile\<rparr>))
    \<and> report (main env) = report (main (env\<lparr>lock0 := NoFile\<rparr>))
    \<and> (\<forall>w. wallet env = Returns w \<and> setupTargetAppPermissions (setup_push env) = Returns ()
          \<longrightarrow> main env = provision env JNull \<and> Producer \<in> set (stages (main env)))"
proof -
  have none: "getLockState (consumeApp env) (lock0 env) = JNull"
    using assms by (simp add: getLockState_def strict_eq_env_val)
  have nofile: "getLockState (consumeApp env) NoFile = JNull"
    by (simp add: getLockState_def)
  have same: "ending (main env) = ending (main (env\<lparr>lock0 := NoFile\<rparr>))
    \<and> stages (main env) = stages (main (env\<lparr>lock0 := NoFile\<rparr>))
    \<and> report (main env) = report (main (env\<lparr>lock0 := NoFile\<rparr>))"
    using provision_lock0 [where env = env and l = NoFile and st = JNull]
    by (simp add: main_def none nofile split: attempt.splits)
  have prov: "main env = provision env JNull \<and> Producer \<in> set (stages (main env))"
    if "wallet env = Returns w" and "setupTargetAppPermissions (setup_push env) = Returns ()" for w
    using main_ok [OF that] Producer_provision [of env JNull] by (simp add: none)
  show ?thesis using none same prov by blast
qed

theorem C8_mismatch_not_reused_witness:
  "lock0 stale_env = Content stale_record
   \<and> get_prop stale_record ''appAddress'' = Some (JStr ''0xB0'')
   \<and> JStr ''0xB0'' \<noteq> env_val (consumeApp stale_env)
   \<and> getLockState (consumeApp stale_env) (lock0 stale_env) = JNull
   \<and> Producer \<in> set (stages (main stale_env))"
proof -
  have h1: "lock0 stale_env = Content stale_record"
    by (simp add: stale_env_def sample_env_def)
  have h2: "get_prop stale_record ''appAddress'' = Some (JStr ''0xB0'')"
    by (simp add: stale_record_def)
  have h3: "JStr ''0xB0'' \<noteq> env_val (consumeApp stale_env)"
    by (simp add: stale_env_def sample_env_def)
  have ok: "wallet stale_env = Returns ''0xA0''
      \<and> setupTargetAppPermissions (setup_push stale_env) = Returns ()"
    by (simp add: stale_env_def sample_env_def setupTargetAppPermissions_def)
  from C8_mismatch_not_reused [OF h1 h2 h3] ok h1 h2 h3 show ?thesis by blast
qed

text \<open>
  Claim C10. A lock file for the right consumer application whose \<open>secretHash\<close> is absent,
  \<open>null\<close> or empty (any falsy value) is not reused: the run takes the provisioning branch
  and runs the producer again.
\<close>

theorem C10_reuse_needs_digest:
  assumes "lock0 env = Content data"
    and "get_prop data ''appAddress'' = Some (env_val (consumeApp env))"
    and "\<not> truthy (js_get data ''secretHash'')"
    and "wallet env = Returns w"
    and "setupTargetAppPermissions (setup_push env) = Returns ()"
  shows "main env = provision env data \<and> Producer \<in> set (stages (main env))"
  using main_ok [OF assms(4,5)] assms(1,3) getLockState_match [OF assms(2)]
    Producer_provision [of env data]
  by (simp add: Let_def)


theorem C10_reuse_needs_digest_witness:
  "lock0 (undigested_env (JObj [(''appAddress'', JStr ''0xC0''), (''secretHash'', JStr [])]))
     = Content (JObj [(''appAddress'', JStr ''0xC0''), (''secretHash'', JStr [])])
   \<and> \<not> truthy (js_get (JObj [(''appAddress'', JStr ''0xC0''), (''secretHash'', JStr [])]) ''secretHash'')
   \<and> \<not> truthy (js_get (JObj [(''appAddress'', JStr ''0xC0''), (''secretHash'', JNull)]) ''secretHash'')
   \<and> \<not> truthy (js_get (JObj [(''appAddress'', JStr ''0xC0'')]) ''secretHash'')
   \<and> Producer \<in> set (stages (main (undigested_env
         (JObj [(''appAddress'', JStr ''0xC0''), (''secretHash'', JStr [])]))))"
proof -
  let ?r = "JObj [(''appAddress'', JStr ''0xC0''), (''secretHash'', JStr [])]"
  have h1: "lock0 (undigested_env ?r) = Content ?r"
    by (simp add: undigested_env_def sample_env_def)
  have h2: "get_prop ?r ''appAddress'' = Some (env_val (consumeApp (undigested_env ?r)))"
    by (simp add: undigested_env_def sample_env_def)
  have h3: "\<not> truthy (js_get ?r ''secretHash'')"
    by (simp add: js_get_def)
  have h4: "wallet (undigested_env ?r) = Returns ''0xA0''"
    by (simp add: undigested_env_def sample_env_def)
  have h5: "setupTargetAppPermissions (setup_push (undigested_env ?r)) = Returns ()"
    by (simp add: undigested_env_def sample_env_def setupTargetAppPermissions_def)
  have h6: "\<not> truthy (js_get (JObj [(''appAddress'', JStr ''0xC0''), (''secretHash'', JNull)]) ''secretHash'')
      \<and> \<not> truthy (js_get (JObj [(''appAddress'', JStr ''0xC0'')]) ''secretHash'')"
    by (simp add: js_get_def)
  from C10_reuse_needs_digest [OF h1 h2 h3 h4 h5] h1 h3 h6 show ?thesis by blast
qed

text \<open>
  A lock file for the right consumer application that holds no \<open>secretHash\<close>: the record
  exists and its consumer matches, yet the producer runs.
\<close>

theorem C2_counterexample:
  "lock0 (undigested_env (JObj [(''appAddress'', JStr ''0xC0'')]))
     = Content (JObj [(''appAddress'', JStr ''0xC0'')])
   \<and> get_prop (JObj [(''appAddress'', JStr ''0xC0'')]) ''appAddress''
       = Some (env_val (consumeApp (undigested_env (JObj [(''appAddress'', JStr ''0xC0'')]))))
   \<and> stages (main (undigested_env (JObj [(''appAddress'', JStr ''0xC0'')])))
       = [Setup, Producer, ProducerFetch, SaveLock (JStr ''d2''), Consumer, ConsumerFetch, Verify]"
  by (simp add: undigested_env_def run_defs)

text \<open>
  Claim C2, as amended. Once the wallet and the permission setup have succeeded, the run
  skips the producer if and only if the lock file holds a record whose \<open>appAddress\<close> is the
  consumer application of this run and whose \<open>secretHash\<close> is truthy. In that case the run
  first prints the stored digest and run count: when one of them has no string the run
  ends there with exit code 1, and otherwise it is steps 2 and 3 alone, run with the stored
  digest. Either way the lock file is left as it was, and a verification that is reached
  ends the run and shows the stored digest as the expected one.
\<close>

theorem C2_reuse_iff:
  assumes "wallet env = Returns w"
    and "setupTargetAppPermissions (setup_push env) = Returns ()"
  shows "(Producer \<notin> set (stages (main env)) \<longleftrightarrow>
            (\<exists>data. lock0 env = Content data
               \<and> get_prop data ''appAddress'' = Some (env_val (consumeApp env))
               \<and> truthy (js_get data ''secretHash'')))
    \<and> (\<forall>data. lock0 env = Content data
               \<and> get_prop data ''appAddress'' = Some (env_val (consumeApp env))
               \<and> truthy (js_get data ''secretHash'')
          \<longrightarrow> (reuse_banner data
                 \<longrightarrow> main env = consume_and_verify env data (js_get data ''secretHash'')
                                  (lock0 env) [Setup])
              \<and> (\<not> reuse_banner data
                 \<longrightarrow> main env = \<lparr>ending = Exit 1, lock = lock0 env, stages = [Setup], report = []\<rparr>)
              \<and> lock (main env) = lock0 env
              \<and> (Verify \<in> set (stages (main env))
                 \<longrightarrow> ending (main env) = Done
                     \<and> hd (report (main env)) = ExpectedHash (js_get data ''secretHash'')))"
proof -
  let ?st = "getLockState (consumeApp env) (lock0 env)"
  have reuse: "main env =
      (if reuse_banner data
       then consume_and_verify env data (js_get data ''secretHash'') (lock0 env) [Setup]
       else \<lparr>ending = Exit 1, lock = lock0 env, stages = [Setup], report = []\<rparr>)"
    if "lock0 env = Content data"
      and "get_prop data ''appAddress'' = Some (env_val (consumeApp env))"
      and "truthy (js_get data ''secretHash'')" for data
    using main_ok [OF assms] that getLockState_match [OF that(2)] truthy_js_get [OF that(3)]
    by (simp add: Let_def)
  have untouched: "lock (main env) = lock0 env"
    if "lock0 env = Content data"
      and "get_prop data ''appAddress'' = Some (env_val (consumeApp env))"
      and "truthy (js_get data ''secretHash'')" for data
    using reuse [OF that] by (simp add: lock_consume_and_verify)
  have expected: "ending (main env) = Done
      \<and> hd (report (main env)) = ExpectedHash (js_get data ''secretHash'')"
    if "lock0 env = Content data"
      and "get_prop data ''appAddress'' = Some (env_val (consumeApp env))"
      and "truthy (js_get data ''secretHash'')"
      and "Verify \<in> set (stages (main env))" for data
  proof -
    have b: "reuse_banner data"
      using reuse [OF that(1,2,3)] that(4) by (auto split: if_splits)
    then have m: "main env = consume_and_verify env data (js_get data ''secretHash'') (lock0 env) [Setup]"
      using reuse [OF that(1,2,3)] by simp
    have "stringifiable (js_get data ''secretHash'')"
      using b by (simp add: reuse_banner_def)
    then show ?thesis
      using verify_reached [of env data "js_get data ''secretHash''" "lock0 env" "[Setup]"]
        that(3,4)
      unfolding m by (auto simp: verification_def js_or_def)
  qed
  have skip: "Producer \<notin> set (stages (main env))"
    if "lock0 env = Content data"
      and "get_prop data ''appAddress'' = Some (env_val (consumeApp env))"
      and "truthy (js_get data ''secretHash'')" for data
    using reuse [OF that] by (simp add: Producer_consume_and_verify)
  have run: "\<exists>data. lock0 env = Content data
               \<and> get_prop data ''appAddress'' = Some (env_val (consumeApp env))
               \<and> truthy (js_get data ''secretHash'')"
    if "Producer \<notin> set (stages (main env))"
  proof -
    have "truthy ?st \<and> truthy (js_get ?st ''secretHash'')"
      using that main_ok [OF assms] Producer_provision [of env ?st]
      by (auto simp: Let_def split: if_splits)
    then show ?thesis
      using getLockState_cases [of "consumeApp env" "lock0 env"] by auto
  qed
  have "Producer \<notin> set (stages (main env)) \<longleftrightarrow>
            (\<exists>data. lock0 env = Content data
               \<and> get_prop data ''appAddress'' = Some (env_val (consumeApp env))
               \<and> truthy (js_get data ''secretHash''))"
    using skip run by blast
  moreover have "main env = consume_and_verify env data (js_get data ''secretHash'') (lock0 env) [Setup]"
    if "lock0 env = Content data"
      and "get_prop data ''appAddress'' = Some (env_val (consumeApp env))"
      and "truthy (js_get data ''secretHash'')" and "reuse_banner data" for data
    using reuse [OF that(1,2,3)] that(4) by simp
  moreover have "main env = \<lparr>ending = Exit 1, lock = lock0 env, stages = [Setup], report = []\<rparr>"
    if "lock0 env = Content data"
      and "get_prop data ''appAddress'' = Some (env_val (consumeApp env))"
      and "truthy (js_get data ''secretHash'')" and "\<not> reuse_banner data" for data
    using reuse [OF that(1,2,3)] that(4) by simp
  ultimately show ?thesis using untouched expected by blast
qed

theorem C2_reuse_iff_witness:
  "wallet (undigested_env (JObj [(''appAddress'', JStr ''0xC0''), (''secretHash'', JStr ''d1'')]))
     = Returns ''0xA0''
   \<and> setupTargetAppPermissions
        (setup_push (undigested_env (JObj [(''appAddress'', JStr ''0xC0''), (''secretHash'', JStr ''d1'')])))
       = Returns ()
   \<and> reuse_banner (JObj [(''appAddress'', JStr ''0xC0''), (''secretHash'', JStr ''d1'')])
   \<and> Producer \<notin> set (stages (main (undigested_env
         (JObj [(''appAddress'', JStr ''0xC0''), (''secretHash'', JStr ''d1'')]))))
   \<and> hd (report (main (undigested_env
         (JObj [(''appAddress'', JStr ''0xC0''), (''secretHash'', JStr ''d1'')]))))
       = ExpectedHash (JStr ''d1'')
   \<and> \<not> reuse_banner (JObj [(''appAddress'', JStr ''0xC0''),
                            (''secretHash'', JObj [(''toString'', JNum 1)])])
   \<and> main (undigested_env (JObj [(''appAddress'', JStr ''0xC0''),
                                  (''secretHash'', JObj [(''toString'', JNum 1)])]))
       = \<lparr>ending = Exit 1,
          lock = Content (JObj [(''appAddress'', JStr ''0xC0''),
                                (''secretHash'', JObj [(''toString'', JNum 1)])]),
          stages = [Setup], report = []\<rparr>"
proof -
  let ?r = "JObj [(''appAddress'', JStr ''0xC0''), (''secretHash'', JStr ''d1'')]"
  let ?u = "JObj [(''appAddress'', JStr ''0xC0''), (''secretHash'', JObj [(''toString'', JNum 1)])]"
  have h1: "wallet (undigested_env d) = Returns ''0xA0''" for d
    by (simp add: undigested_env_def sample_env_def)
  have h2: "setupTargetAppPermissions (setup_push (undigested_env d)) = Returns ()" for d
    by (simp add: undigested_env_def sample_env_def setupTargetAppPermissions_def)
  have h3: "lock0 (undigested_env ?r) = Content ?r
      \<and> get_prop ?r ''appAddress'' = Some (env_val (consumeApp (undigested_env ?r)))
      \<and> truthy (js_get ?r ''secretHash'')"
    by (simp add: undigested_env_def sample_env_def js_get_def)
  have h4: "Verify \<in> set (stages (main (undigested_env ?r)))"
    by (simp add: undigested_env_def run_defs)
  have h5: "js_get ?r ''secretHash'' = JStr ''d1''"
    by (simp add: js_get_def)
  have h6: "reuse_banner ?r"
    by (simp add: reuse_banner_def js_get_def)
  have u3: "lock0 (undigested_env ?u) = Content ?u
      \<and> get_prop ?u ''appAddress'' = Some (env_val (consumeApp (undigested_env ?u)))
      \<and> truthy (js_get ?u ''secretHash'')"
    by (simp add: undigested_env_def sample_env_def js_get_def)
  have u6: "\<not> reuse_banner ?u"
    by (simp add: reuse_banner_def js_get_def)
  from C2_reuse_iff [OF h1 h2, of ?r] h3 h4 h5
  have A: "Producer \<notin> set (stages (main (undigested_env ?r)))
      \<and> hd (report (main (undigested_env ?r))) = ExpectedHash (JStr ''d1'')"
    by metis
  from C2_reuse_iff [OF h1 h2, of ?u] u3 u6
  have B: "main (undigested_env ?u)
       = \<lparr>ending = Exit 1, lock = lock0 (undigested_env ?u), stages = [Setup], report = []\<rparr>"
    by metis
  from A B h1 [of ?r] h2 [of ?r] h6 u6 u3 show ?thesis by simp
qed

subsection \<open>Failures while provisioning\<close>

text \<open>
  Without a lock file, a producer result that cannot be fetched does not stop the run: the
  consumer runs and the verification follows.
\<close>

theorem C3_counterexample:
  "getLockState (consumeApp (sample_env NoFile (FetchFailed (Some ''fetch failed'')) (FetchFailed None)))
     (lock0 (sample_env NoFile (FetchFailed (Some ''fetch failed'')) (FetchFailed None))) = JNull
   \<and> fetchResult (fetch (sample_env NoFile (FetchFailed (Some ''fetch failed'')) (FetchFailed None))
        (JStr ''/ipfs/p'')) = JNull
   \<and> ending (main (sample_env NoFile (FetchFailed (Some ''fetch failed'')) (FetchFailed None))) = Done
   \<and> stages (main (sample_env NoFile (FetchFailed (Some ''fetch failed'')) (FetchFailed None)))
       = [Setup, Producer, ProducerFetch, Consumer, ConsumerFetch, Verify]"
  by (simp add: run_defs)

text \<open>
  Claim C3, as amended. In a run that provisions, an error thrown by the producer execution
  ends the run with exit code 1 before the consumer stage, and the lock file is left as it
  was. When the execution returns but no digest is obtained (the result cannot be fetched or
  parsed, or holds no digest), the lock file is left as it was as well, and no record is
  saved. If the result location has no string, printing it ends the run with exit code 1
  before the consumer stage; otherwise the run goes on and the consumer runs. A
  verification that is reached reports the missing target hash.
\<close>

theorem C3_provision_failures:
  assumes "wallet env = Returns w"
    and "setupTargetAppPermissions (setup_push env) = Returns ()"
    and "\<not> (truthy (getLockState (consumeApp env) (lock0 env))
            \<and> truthy (js_get (getLockState (consumeApp env) (lock0 env)) ''secretHash''))"
  shows "(\<forall>e. executeTargetApp (target_exec env) = Some (Throws e)
            \<longrightarrow> ending (main env) = Exit 1 \<and> lock (main env) = lock0 env
                \<and> Consumer \<notin> set (stages (main env)))
    \<and> (\<forall>location. executeTargetApp (target_exec env) = Some (Returns location)
            \<and> \<not> (truthy (fetchResult (fetch env location))
                   \<and> truthy (target_hash (fetchResult (fetch env location))))
            \<longrightarrow> lock (main env) = lock0 env
                \<and> (\<forall>h. SaveLock h \<notin> set (stages (main env)))
                \<and> (stringifiable location \<longrightarrow> Consumer \<in> set (stages (main env)))
                \<and> (\<not> stringifiable location
                      \<longrightarrow> ending (main env) = Exit 1 \<and> Consumer \<notin> set (stages (main env)))
                \<and> (Verify \<in> set (stages (main env))
                      \<longrightarrow> MissingTargetHash \<in> set (report (main env))))"
proof -
  have m: "main env = provision env (getLockState (consumeApp env) (lock0 env))"
    using main_ok [OF assms(1,2)] assms(3) by (simp add: Let_def)
  have thrown: "ending (main env) = Exit 1 \<and> lock (main env) = lock0 env
      \<and> Consumer \<notin> set (stages (main env))"
    if "executeTargetApp (target_exec env) = Some (Throws e)" for e
    using that by (simp add: m provision_def)
  have nodigest: "lock (main env) = lock0 env
      \<and> (\<forall>h. SaveLock h \<notin> set (stages (main env)))
      \<and> (stringifiable location \<longrightarrow> Consumer \<in> set (stages (main env)))
      \<and> (\<not> stringifiable location
            \<longrightarrow> ending (main env) = Exit 1 \<and> Consumer \<notin> set (stages (main env)))
      \<and> (Verify \<in> set (stages (main env)) \<longrightarrow> MissingTargetHash \<in> set (report (main env)))"
    if "executeTargetApp (target_exec env) = Some (Returns location)"
      and "\<not> (truthy (fetchResult (fetch env location))
             \<and> truthy (target_hash (fetchResult (fetch env location))))" for location
  proof (cases "stringifiable location")
    case False
    then have "main env = \<lparr>ending = Exit 1, lock = lock0 env, stages = [Setup, Producer], report = []\<rparr>"
      using that(1) by (simp add: m provision_def)
    with False show ?thesis by simp
  next
    case True
    let ?h = "if truthy (fetchResult (fetch env location))
              then target_hash (fetchResult (fetch env location)) else Undefined"
    have falsy: "\<not> truthy ?h" using that(2) by simp
    have printable: "stringifiable ?h"
      using falsy by (rule falsy_stringifiable)
    have p: "main env = consume_and_verify env (getLockState (consumeApp env) (lock0 env)) ?h
                (lock0 env) [Setup, Producer, ProducerFetch]"
      using that True printable by (auto simp: m provision_def Let_def)
    have rep: "MissingTargetHash \<in> set (report (main env))" if "Verify \<in> set (stages (main env))"
      using verify_reached [of env "getLockState (consumeApp env) (lock0 env)" ?h "lock0 env"
          "[Setup, Producer, ProducerFetch]"] that printable falsy
      unfolding p by (auto simp: verification_def)
    show ?thesis
      using rep True
      by (simp add: p lock_consume_and_verify SaveLock_consume_and_verify
          Consumer_consume_and_verify)
  qed
  show ?thesis using thrown nodigest by blast
qed

theorem C3_provision_failures_witness:
  "ending (main (failing_producer_env (Some ''matchOrders failed''))) = Exit 1
   \<and> lock (main (failing_producer_env (Some ''matchOrders failed''))) = NoFile
   \<and> Consumer \<notin> set (stages (main (failing_producer_env (Some ''matchOrders failed''))))
   \<and> lock (main (sample_env NoFile (Document (JObj [(''success'', JBool False)]))
        (Document (JObj [(''hashes'', JObj [(''sha256'', JStr ''d2'')])])))) = NoFile
   \<and> Consumer \<in> set (stages (main (sample_env NoFile (Document (JObj [(''success'', JBool False)]))
        (Document (JObj [(''hashes'', JObj [(''sha256'', JStr ''d2'')])])))))
   \<and> MissingTargetHash \<in> set (report (main (sample_env NoFile (Document (JObj [(''success'', JBool False)]))
        (Document (JObj [(''hashes'', JObj [(''sha256'', JStr ''d2'')])])))))
   \<and> \<not> stringifiable (JObj [(''toString'', JNum 1)])
   \<and> ending (main ((sample_env NoFile (FetchFailed None) (FetchFailed None))
        \<lparr>target_exec := completed_exec (JObj [(''toString'', JNum 1)])\<rparr>)) = Exit 1
   \<and> Consumer \<notin> set (stages (main ((sample_env NoFile (FetchFailed None) (FetchFailed None))
        \<lparr>target_exec := completed_exec (JObj [(''toString'', JNum 1)])\<rparr>)))"
proof -
  let ?a = "failing_producer_env (Some ''matchOrders failed'')"
  let ?b = "sample_env NoFile (Document (JObj [(''success'', JBool False)]))
        (Document (JObj [(''hashes'', JObj [(''sha256'', JStr ''d2'')])]))"
  let ?c = "(sample_env NoFile (FetchFailed None) (FetchFailed None))
        \<lparr>target_exec := completed_exec (JObj [(''toString'', JNum 1)])\<rparr>"
  have a1: "wallet ?a = Returns ''0xA0''"
    by (simp add: failing_producer_env_def sample_env_def)
  have a2: "setupTargetAppPermissions (setup_push ?a) = Returns ()"
    by (simp add: failing_producer_env_def sample_env_def setupTargetAppPermissions_def)
  have a3: "\<not> (truthy (getLockState (consumeApp ?a) (lock0 ?a))
            \<and> truthy (js_get (getLockState (consumeApp ?a) (lock0 ?a)) ''secretHash''))"
    by (simp add: failing_producer_env_def sample_env_def getLockState_def)
  have a4: "executeTargetApp (target_exec ?a) = Some (Throws (Some ''matchOrders failed''))"
    by (simp add: failing_producer_env_def sample_env_def executeTargetApp_def executeApp_def
        completed_exec_def fetchWorkerpoolOrder_def)
  have a5: "lock0 ?a = NoFile"
    by (simp add: failing_producer_env_def sample_env_def)
  have b1: "wallet ?b = Returns ''0xA0''"
    by (simp add: sample_env_def)
  have b2: "setupTargetAppPermissions (setup_push ?b) = Returns ()"
    by (simp add: sample_env_def setupTargetAppPermissions_def)
  have b3: "\<not> (truthy (getLockState (consumeApp ?b) (lock0 ?b))
            \<and> truthy (js_get (getLockState (consumeApp ?b) (lock0 ?b)) ''secretHash''))"
    by (simp add: sample_env_def getLockState_def)
  have b4: "executeTargetApp (target_exec ?b) = Some (Returns (JStr ''/ipfs/p''))"
    by (simp add: sample_env_def executeTargetApp_def executeApp_completed)
  have b5: "\<not> (truthy (fetchResult (fetch ?b (JStr ''/ipfs/p'')))
             \<and> truthy (target_hash (fetchResult (fetch ?b (JStr ''/ipfs/p'')))))"
    by (simp add: sample_env_def fetchResult_def target_hash_def js_get_def opt_prop_def)
  have b6: "lock0 ?b = NoFile"
    by (simp add: sample_env_def)
  have b7: "Verify \<in> set (stages (main ?b))"
    by (simp add: run_defs)
  from C3_provision_failures [OF a1 a2 a3] a4 a5
  have A: "ending (main ?a) = Exit 1 \<and> lock (main ?a) = NoFile \<and> Consumer \<notin> set (stages (main ?a))"
    by metis
  have b8: "stringifiable (JStr ''/ipfs/p'')"
    by simp
  from C3_provision_failures [OF b1 b2 b3] b4 b5 b6 b7 b8
  have B: "lock (main ?b) = NoFile \<and> Consumer \<in> set (stages (main ?b))
      \<and> MissingTargetHash \<in> set (report (main ?b))"
    by metis
  have c1: "wallet ?c = Returns ''0xA0''"
    by (simp add: sample_env_def)
  have c2: "setupTargetAppPermissions (setup_push ?c) = Returns ()"
    by (simp add: sample_env_def setupTargetAppPermissions_def)
  have c3: "\<not> (truthy (getLockState (consumeApp ?c) (lock0 ?c))
            \<and> truthy (js_get (getLockState (consumeApp ?c) (lock0 ?c)) ''secretHash''))"
    by (simp add: sample_env_def getLockState_def)
  have c4: "executeTargetApp (target_exec ?c) = Some (Returns (JObj [(''toString'', JNum 1)]))"
    by (simp add: executeTargetApp_def executeApp_completed)
  have c5: "\<not> (truthy (fetchResult (fetch ?c (JObj [(''toString'', JNum 1)])))
             \<and> truthy (target_hash (fetchResult (fetch ?c (JObj [(''toString'', JNum 1)])))))"
    by (simp add: sample_env_def fetchResult_def)
  have c8: "\<not> stringifiable (JObj [(''toString'', JNum 1)])"
    by simp
  from C3_provision_failures [OF c1 c2 c3] c4 c5 c8
  have C: "ending (main ?c) = Exit 1 \<and> Consumer \<notin> set (stages (main ?c))"
    by metis
  from A B C c8 show ?thesis by simp
qed

subsection \<open>The sample run of the secret generator\<close>

lemma upt_numeral: "[i..<numeral n] = (if i < numeral n then i # [Suc i..<numeral n] else [])"
  by (rule upt_rec)

lemma decimal_small: "n < 10 \<Longrightarrow> decimal n = [''0123456789'' ! n]"
  by (simp add: decimal.simps)

lemma decimal_big: "\<not> n < 10 \<Longrightarrow> decimal n = decimal (n div 10) @ [''0123456789'' ! (n mod 10)]"
  by (subst decimal.simps) simp

lemma sample_args:
  "parseArgs ascii_trim 41 [target_args (Some consumer_address) 42] =
     \<lparr>consumeAppAddress = Some consumer_address, secretName = ''app-secret-test-42'',
      secretType = ''api-key''\<rparr>"
  by (simp add: target_args_def consumer_address_def decimal_small decimal_big parseArgs_def
      ascii_trim_def is_space_def part_or_def Let_def)

lemma sample_value:
  "fst (secret_value ascii_lower ''api-key'' 2000 sample_entropy) =
     (''lwhs_jKvOzaBmNyR2dEpQ1U5gHsT4X8jKvW7a'',
      JObj [(''format'', JStr ''prefix_key''), (''keyLength'', JNum 32)])"
  by (simp add: secret_value_def ascii_lower_def lower_char_def generateRandomString_def
      charsets_def randomBytes_def Let_def upt_numeral sample_entropy_def)

lemma sample_digest_value: "sample_digest ''lwhs_jKvOzaBmNyR2dEpQ1U5gHsT4X8jKvW7a'' = ''54545''"
  by (simp add: sample_digest_def decimal_small decimal_big)

lemma sample_secret:
  "fst (generateSecret sample_digest ascii_lower ''api-key'' ts 2000 sample_entropy) =
     \<lparr>secret = ''lwhs_jKvOzaBmNyR2dEpQ1U5gHsT4X8jKvW7a'', hash = ''54545'', type = ''api-key'',
      generatedAt = ts,
      metadata = JObj [(''format'', JStr ''prefix_key''), (''keyLength'', JNum 32)]\<rparr>"
proof -
  obtain r' where "secret_value ascii_lower ''api-key'' 2000 sample_entropy =
      ((''lwhs_jKvOzaBmNyR2dEpQ1U5gHsT4X8jKvW7a'',
        JObj [(''format'', JStr ''prefix_key''), (''keyLength'', JNum 32)]), r')"
    using sample_value by (metis prod.collapse)
  then show ?thesis
    by (simp add: generateSecret_def sample_digest_value)
qed

lemma sample_address: "isAddress (sample_sdk answer) consumer_address \<and> consumer_address \<noteq> []"
  by (simp add: sample_sdk_def consumer_address_def)

lemma sample_configured:
  "parseAppSecret (Json (JObj [(''DEDICATED_PRIVATE_KEY'', JStr ''0xkey'')])) = Some sample_config"
  by (simp add: parseAppSecret_def sample_config_def js_get_def js_or_def)

lemma sample_run_eq:
  assumes "pushSecretToSMS k sample_config consumer_address ''lwhs_jKvOzaBmNyR2dEpQ1U5gHsT4X8jKvW7a''
             = Some (pushResult, accepted)"
  shows "sample_run k =
     \<lparr>result_json = output_json pushResult ''app-secret-test-42''
        \<lparr>secret = ''lwhs_jKvOzaBmNyR2dEpQ1U5gHsT4X8jKvW7a'', hash = ''54545'', type = ''api-key'',
         generatedAt = ''2025-01-01T00:00:00.000Z'',
         metadata = JObj [(''format'', JStr ''prefix_key''), (''keyLength'', JNum 32)]\<rparr>,
      computed_json = computed ''/iexec_out/result.json'',
      pushed = accepted, exit_code = 0\<rparr>"
proof -
  have "consumer_address \<noteq> []" by (simp add: consumer_address_def)
  then show ?thesis
    using assms
    by (simp add: sample_run_def generator_main_def sample_generator_def sample_configured
        sample_config_def sample_args sample_secret or_else_def Let_def)
qed

lemma sample_push_refused:
  "pushSecretToSMS (sample_sdk (Throws (Some m))) sample_config consumer_address v
     = Some (push_failed (JStr m), [])"
  using sample_address [of "Throws (Some m)"]
  by (simp add: pushSecretToSMS_def sample_config_def) (simp add: sample_sdk_def)



lemma refused_document:
  "m \<noteq> [] \<Longrightarrow>
   result_json (sample_run (sample_sdk (Throws (Some m)))) =
     JObj [(''success'', JBool False),
           (''secretName'', JStr ''app-secret-test-42''),
           (''secretInfo'',
              JObj [(''hash'', JStr ''54545''), (''type'', JStr ''api-key''),
                    (''generatedAt'', JStr ''2025-01-01T00:00:00.000Z''),
                    (''metadata'', JObj [(''format'', JStr ''prefix_key''), (''keyLength'', JNum 32)])]),
           (''smsInfo'', JObj [(''pushed'', JBool False), (''error'', JStr m)]),
           (''consumeInstructions'',
              JObj [(''description'', JStr ''To use this secret in ConsumeApp:''),
                    (''secretType'', JStr ''App Secret (Global)''),
                    (''note'', JStr ''The secret is set as the App Owner Secret for the Consume App.'')])]"
  by (simp add: sample_run_eq [OF sample_push_refused] output_json_def push_failed_def
      json_object_def js_get_def js_or_def)


lemma refused_result:
  "result_json (sample_run (sample_sdk (Throws (Some ''caller is not the owner'')))) =
     JObj [(''success'', JBool False),
           (''secretName'', JStr ''app-secret-test-42''),
           (''secretInfo'',
              JObj [(''hash'', JStr ''54545''), (''type'', JStr ''api-key''),
                    (''generatedAt'', JStr ''2025-01-01T00:00:00.000Z''),
                    (''metadata'', JObj [(''format'', JStr ''prefix_key''), (''keyLength'', JNum 32)])]),
           (''smsInfo'', JObj [(''pushed'', JBool False), (''error'', JStr ''caller is not the owner'')]),
           (''consumeInstructions'',
              JObj [(''description'', JStr ''To use this secret in ConsumeApp:''),
                    (''secretType'', JStr ''App Secret (Global)''),
                    (''note'', JStr ''The secret is set as the App Owner Secret for the Consume App.'')])]"
  by (simp add: refused_document)

lemma refused_pushed: "pushed (sample_run (sample_sdk (Throws (Some m)))) = []"
  by (simp add: sample_run_eq [OF sample_push_refused])



lemma sample_flow_run:
  "truthy d \<Longrightarrow> stringifiable d \<Longrightarrow>
   main (sample_flow (JObj ((''success'', b) # (''secretName'', n) # (''secretInfo'', JObj ((''hash'', d) # others)) # rest)))
     = \<lparr>ending = Done,
        lock = Content (JObj [(''appAddress'', JStr consumer_address), (''secretHash'', d),
                              (''timestamp'', JStr ''2025-01-01T00:00:00.000Z'')]),
        stages = [Setup, Producer, ProducerFetch, SaveLock d, Consumer, ConsumerFetch, Verify],
        report = verification d (JStr ''d2'') JNull\<rparr>"
  by (cases d) (simp_all add: sample_flow_def run_defs)

subsection \<open>The digest of a generated secret\<close>

text \<open>
  Claim C9. For every secret type, recognised or not, the \<open>hash\<close> of the generated secret is
  the hash function applied to exactly the generated \<open>secret\<close> string, which is the value the
  case of the \<open>switch\<close> for that type has built; the \<open>type\<close> is the type asked for.
\<close>

theorem C9_digest_of_value:
  "hash (fst (generateSecret digest lower t ts now r))
     = digest (secret (fst (generateSecret digest lower t ts now r)))
   \<and> secret (fst (generateSecret digest lower t ts now r)) = fst (fst (secret_value lower t now r))
   \<and> type (fst (generateSecret digest lower t ts now r)) = t"
  by (simp add: generateSecret_def Let_def split: prod.splits)

theorem C9_digest_of_value_witness:
  "secret (fst (generateSecret sample_digest ascii_lower ''api-key'' ''2025-01-01T00:00:00.000Z'' 2000
                  sample_entropy))
     = ''lwhs_jKvOzaBmNyR2dEpQ1U5gHsT4X8jKvW7a''
   \<and> hash (fst (generateSecret sample_digest ascii_lower ''api-key'' ''2025-01-01T00:00:00.000Z'' 2000
                  sample_entropy))
     = sample_digest ''lwhs_jKvOzaBmNyR2dEpQ1U5gHsT4X8jKvW7a''"
  using C9_digest_of_value [of sample_digest ascii_lower "''api-key''" "''2025-01-01T00:00:00.000Z''"
      2000 sample_entropy]
  by (simp add: sample_value)

subsection \<open>A push that fails\<close>

text \<open>
  Claim C1, at a run where the code departs from it. The store refuses the push (the caller
  is not the owner of the consumer application): no push is accepted and the result of the
  secret generator says \<open>success: false\<close>, yet the flow script, which reads only the digest
  from that result, writes the digest of the secret that was never pushed to the lock file.
\<close>

theorem C1_failed_push_recorded:
  "pushed (sample_run (sample_sdk (Throws (Some ''caller is not the owner'')))) = []
   \<and> js_get (result_json (sample_run (sample_sdk (Throws (Some ''caller is not the owner''))))) ''success''
       = JBool False
   \<and> lock (main (sample_flow
        (result_json (sample_run (sample_sdk (Throws (Some ''caller is not the owner'')))))))
       = Content (JObj [(''appAddress'', JStr consumer_address), (''secretHash'', JStr ''54545''),
                        (''timestamp'', JStr ''2025-01-01T00:00:00.000Z'')])"
  by (simp add: refused_pushed refused_result sample_flow_run js_get_def)

text \<open>
  A push that fails on a network error inside the secret generator: the failure is caught,
  the result is written with \<open>success: false\<close>, and the run of the flow script that
  started the generator goes on through the consumer stage to the verification.
\<close>

theorem C5_counterexample:
  "pushSecretToSMS (sample_sdk (Throws (Some ''network error''))) sample_config consumer_address
       ''lwhs_jKvOzaBmNyR2dEpQ1U5gHsT4X8jKvW7a''
     = Some (push_failed (JStr ''network error''), [])
   \<and> js_get (result_json (sample_run (sample_sdk (Throws (Some ''network error''))))) ''success''
       = JBool False
   \<and> ending (main (sample_flow (result_json (sample_run (sample_sdk (Throws (Some ''network error'')))))))
       = Done
   \<and> stages (main (sample_flow (result_json (sample_run (sample_sdk (Throws (Some ''network error'')))))))
       = [Setup, Producer, ProducerFetch, SaveLock (JStr ''54545''), Consumer, ConsumerFetch, Verify]"
  by (simp add: refused_document sample_push_refused sample_flow_run js_get_def)

lemma push_success_flag:
  "pushSecretToSMS k c a v = Some (r, accepted)
     \<Longrightarrow> \<exists>rest. r = JObj ((''success'', JBool (accepted \<noteq> [])) # rest)"
  by (auto simp: pushSecretToSMS_def push_failed_def split: attempt.splits if_splits)

lemma push_throws: "pushSecretToSMS k c a v = None \<longleftrightarrow> \<not> stringifiable (smsUrl c)"
  by (simp add: pushSecretToSMS_def)

lemma push_returns: "pushSecretToSMS k c a v = Some x \<Longrightarrow> stringifiable (smsUrl c)"
  by (simp add: pushSecretToSMS_def split: if_splits)

lemma output_success_flag:
  "js_get (output_json (JObj ((''success'', JBool b) # rest)) n sd) ''success'' = JBool b"
  by (simp add: output_json_def json_object_def js_get_def)

lemma generator_success_flag:
  "exit_code (generator_main genv) = 0
     \<Longrightarrow> js_get (result_json (generator_main genv)) ''success''
           = JBool (pushed (generator_main genv) \<noteq> [])"
proof -
  have unconfigured: "js_get (json_object
                     [(''success'', JBool False),
                      (''error'', JStr ''App Secret not configured''),
                      (''instructions'',
                       JStr ''Deploy this iApp with an App Secret containing DEDICATED_PRIVATE_KEY'')]) ''success'' = JBool False"
    by (simp add: json_object_def js_get_def)
  have nopush: "js_get (output_json (push_failed m) n sd) ''success'' = JBool False" for m n sd
    by (simp add: push_failed_def output_success_flag)
  have pushing: "js_get (output_json x1 n sd) ''success'' = JBool (x2 \<noteq> [])"
    if "pushSecretToSMS k c a v = Some (x1, x2)" for k c a v n sd x1 x2
    using push_success_flag [OF that] by (auto simp: output_success_flag)
  assume "exit_code (generator_main genv) = 0"
  then show ?thesis
    by (auto simp: generator_main_def Let_def unconfigured nopush pushing
        split: option.splits prod.splits if_splits)
qed

lemma generator_exit:
  "exit_code (generator_main genv) \<noteq> 0
     \<Longrightarrow> result_json (generator_main genv) = Undefined \<and> pushed (generator_main genv) = []
         \<and> (\<exists>c. parseAppSecret (appDeveloperSecret genv) = Some c \<and> \<not> stringifiable (smsUrl c))"
  by (auto simp: generator_main_def Let_def push_throws
      split: option.splits prod.splits if_splits dest: push_returns)

text \<open>
  Claim C5, as amended. In the permission setup of the flow script a push that fails for
  another reason than \<open>already exists\<close> (the SDK returns false, or throws an error whose
  message does not mention it) is fatal: the run exits with code 1 right after the setup and
  leaves the lock file alone. Inside the secret generator a failed push is not fatal:
  \<open>pushSecretToSMS\<close> catches what the SDK throws, and whenever it returns, and whenever
  \<open>main\<close> ends with a result, the \<open>success\<close> flag of what is returned and written tells
  whether the store accepted a push. The function throws, and \<open>main\<close> ends with exit code
  1 and without a result, only when the URL of the store in the configuration has no string,
  which is found out before anything is pushed.
\<close>

theorem C5_push_failures:
  "(\<forall>w. wallet env = Returns w
        \<and> (setup_push env = Returns False \<or> setup_push env = Throws None
             \<or> (\<exists>m. setup_push env = Throws (Some m) \<and> \<not> str_includes m ''already exists''))
      \<longrightarrow> ending (main env) = Exit 1 \<and> stages (main env) = [Setup] \<and> lock (main env) = lock0 env)
   \<and> (exit_code (generator_main genv) = 0
      \<longrightarrow> js_get (result_json (generator_main genv)) ''success''
          = JBool (pushed (generator_main genv) \<noteq> []))
   \<and> (exit_code (generator_main genv) \<noteq> 0
      \<longrightarrow> result_json (generator_main genv) = Undefined \<and> pushed (generator_main genv) = []
          \<and> (\<exists>c. parseAppSecret (appDeveloperSecret genv) = Some c \<and> \<not> stringifiable (smsUrl c)))
   \<and> (\<forall>r accepted. pushSecretToSMS k c a v = Some (r, accepted)
      \<longrightarrow> js_get r ''success'' = JBool (accepted \<noteq> []))
   \<and> (pushSecretToSMS k c a v = None \<longleftrightarrow> \<not> stringifiable (smsUrl c))"
proof -
  have perm: "ending (main env) = Exit 1 \<and> stages (main env) = [Setup] \<and> lock (main env) = lock0 env"
    if "wallet env = Returns w"
      and "setup_push env = Returns False \<or> setup_push env = Throws None
             \<or> (\<exists>m. setup_push env = Throws (Some m) \<and> \<not> str_includes m ''already exists'')" for w
    using that
    by (auto simp: main_def Let_def setupTargetAppPermissions_def setup_catch_def)
  have push: "js_get r ''success'' = JBool (accepted \<noteq> [])"
    if "pushSecretToSMS k c a v = Some (r, accepted)" for r accepted
    using push_success_flag [OF that] by (auto simp: js_get_def)
  show ?thesis
    using perm generator_success_flag [of genv] generator_exit [of genv] push push_throws [of k c a v]
    by blast
qed

theorem C5_push_failures_witness:
  "wallet refused_setup_env = Returns ''0xA0''
   \<and> setup_push refused_setup_env = Throws (Some ''network error'')
   \<and> \<not> str_includes ''network error'' ''already exists''
   \<and> ending (main refused_setup_env) = Exit 1
   \<and> stages (main refused_setup_env) = [Setup]
   \<and> exit_code (sample_run (sample_sdk (Throws (Some ''network error'')))) = 0
   \<and> pushed (sample_run (sample_sdk (Throws (Some ''network error'')))) = []
   \<and> js_get (result_json (sample_run (sample_sdk (Throws (Some ''network error''))))) ''success''
       = JBool False
   \<and> js_get (push_failed (JStr ''network error'')) ''success'' = JBool False
   \<and> exit_code (generator_main
         ((sample_generator [target_args (Some consumer_address) 42] (sample_sdk (Returns True)))
          \<lparr>appDeveloperSecret :=
             Json (JObj [(''DEDICATED_PRIVATE_KEY'', JStr ''0xkey''),
                         (''SMS_URL'', JObj [(''toString'', JNum 1)])])\<rparr>)) = 1
   \<and> result_json (generator_main
         ((sample_generator [target_args (Some consumer_address) 42] (sample_sdk (Returns True)))
          \<lparr>appDeveloperSecret :=
             Json (JObj [(''DEDICATED_PRIVATE_KEY'', JStr ''0xkey''),
                         (''SMS_URL'', JObj [(''toString'', JNum 1)])])\<rparr>)) = Undefined
   \<and> pushed (generator_main
         ((sample_generator [target_args (Some consumer_address) 42] (sample_sdk (Returns True)))
          \<lparr>appDeveloperSecret :=
             Json (JObj [(''DEDICATED_PRIVATE_KEY'', JStr ''0xkey''),
                         (''SMS_URL'', JObj [(''toString'', JNum 1)])])\<rparr>)) = []"
proof -
  let ?k = "sample_sdk (Throws (Some ''network error''))"
  let ?u = "(sample_generator [target_args (Some consumer_address) 42] (sample_sdk (Returns True)))
          \<lparr>appDeveloperSecret :=
             Json (JObj [(''DEDICATED_PRIVATE_KEY'', JStr ''0xkey''),
                         (''SMS_URL'', JObj [(''toString'', JNum 1)])])\<rparr>"
  have h1: "wallet refused_setup_env = Returns ''0xA0''"
    by (simp add: refused_setup_env_def sample_env_def)
  have h2: "setup_push refused_setup_env = Throws (Some ''network error'')"
    by (simp add: refused_setup_env_def sample_env_def)
  have h3: "\<not> str_includes ''network error'' ''already exists''"
    by simp
  have h4: "pushed (sample_run ?k) = []"
    by (rule refused_pushed)
  have h5: "exit_code (sample_run ?k) = 0"
    by (simp add: sample_run_eq [OF sample_push_refused])
  have h6: "pushSecretToSMS ?k sample_config consumer_address ''lwhs_jKvOzaBmNyR2dEpQ1U5gHsT4X8jKvW7a''
      = Some (push_failed (JStr ''network error''), [])"
    by (rule sample_push_refused)
  have "consumer_address \<noteq> []"
    by (simp add: consumer_address_def)
  then have u1: "exit_code (generator_main ?u) = 1"
    by (simp add: generator_main_def sample_generator_def parseAppSecret_def js_get_def js_or_def
        sample_args or_else_def pushSecretToSMS_def Let_def)
  from C5_push_failures [of _ ?u] u1
  have U: "result_json (generator_main ?u) = Undefined \<and> pushed (generator_main ?u) = []"
    by simp
  from C5_push_failures [of refused_setup_env
      "sample_generator [target_args (Some consumer_address) 42] ?k"
      ?k sample_config consumer_address "''lwhs_jKvOzaBmNyR2dEpQ1U5gHsT4X8jKvW7a''"]
    h1 h2 h3 h4 h5 h6 u1 U
  show ?thesis unfolding sample_run_def by auto
qed

subsection \<open>What is written down\<close>





























end
